theory Spec2Isabelle
  imports Complex_Main "HOL-Library.Product_Lexorder" "HOL-Library.Log_Nat"
begin

section \<open>Budget-constrained bidders of Bidder.py\<close>

text \<open>
  The Python floats of the source are modelled as real numbers: every arithmetic
  operation is the exact one, and rounding and overflow are outside the model. The
  one property that a rounding error decides, the step of \<open>roi_bid\<close>, is treated in
  double precision (\<open>fl\<close>, \<open>calc_roi_bid_fl\<close>, \<open>IMPCBudgetBidder_charge_fl\<close>).
  Integers (round numbers, periods, memory lengths) are Python ints, modelled as
  \<^typ>\<open>int\<close>. Where the source can divide by zero the model says what Python or
  numpy does there (an exception, or inf and nan) instead of using the division of
  HOL.
\<close>

subsection \<open>The bid/spend curve solver\<close>

text \<open>A sample is the two-element list \<open>[bid, spend]\<close> of the source.\<close>

type_synonym sample = "real \<times> real"

text \<open>
  \<open>list(map(np.mean, zip(*current)))\<close>: the mean of the bids and the mean of the
  spends of a non-empty run. It is only ever called on a non-empty run.
\<close>

definition mean :: "real list \<Rightarrow> real" where
  "mean xs = sum_list xs / real (length xs)"

definition mean_sample :: "sample list \<Rightarrow> sample" where
  "mean_sample current = (mean (map fst current), mean (map snd current))"

text \<open>
  The loop of \<open>aggregate_near_sample\<close>, with its two local lists as arguments, and the
  flush of the last run after the loop. The \<open>else\<close> branch appends the mean of the
  current run to the result and sets \<open>current = []\<close>; the sample \<open>s\<close> at hand is not
  put anywhere.
\<close>

fun aggregate_loop :: "real \<Rightarrow> sample list \<Rightarrow> sample list \<Rightarrow> sample list \<Rightarrow> sample list" where
  "aggregate_loop distance [] result current =
     (if length current > 0 then result @ [mean_sample current] else result)"
| "aggregate_loop distance (s # samples) result current =
     (if length current = 0 \<or> fst s < fst (hd current) * (1 + distance)
      then aggregate_loop distance samples result (current @ [s])
      else aggregate_loop distance samples (result @ [mean_sample current]) [])"

definition aggregate_near_sample :: "sample list \<Rightarrow> real \<Rightarrow> sample list" where
  "aggregate_near_sample samples distance = aggregate_loop distance samples [] []"

text \<open>The default \<open>distance=1e-6\<close>.\<close>

definition default_distance :: real where
  "default_distance = 1 / 1000000"

text \<open>
  The binary search of \<open>increasing_subsequence\<close>: the \<open>while l < r\<close> loop, returning
  the final \<open>l\<close>. It starts from \<open>l = 0\<close>, \<open>r = len(result)\<close>, so \<open>mid\<close> is always a
  valid index.
\<close>

function bsearch :: "sample \<Rightarrow> sample list \<Rightarrow> nat \<Rightarrow> nat \<Rightarrow> nat" where
  "bsearch s result l r =
     (if l < r
      then (let mid = (l + r) div 2
            in if snd s \<ge> snd (result ! mid)
               then bsearch s result (mid + 1) r
               else bsearch s result l mid)
      else l)"
  by pat_completeness auto
termination
  by (relation "measure (\<lambda>(s, result, l, r). r - l)") auto

definition place :: "sample list \<Rightarrow> sample \<Rightarrow> sample list" where
  "place result s =
     (let l = bsearch s result 0 (length result)
      in if l = length result then result @ [s] else result[l := s])"

definition increasing_subsequence :: "sample list \<Rightarrow> sample list" where
  "increasing_subsequence samples = foldl place [] samples"

text \<open>\<open>liner_solve\<close>: the guard keeps the divisor away from zero.\<close>

definition liner_solve :: "real \<Rightarrow> real \<Rightarrow> real \<Rightarrow> real \<Rightarrow> real \<Rightarrow> real" where
  "liner_solve x1 y1 x2 y2 x =
     (if \<bar>x1 - x2\<bar> < 1 / 1000000 then (y1 + y2) / 2
      else y1 + (y2 - y1) * (x - x1) / (x2 - x1))"

text \<open>
  The bracket walk of \<open>impc\<close>: the loop over \<open>i\<close> with the locals \<open>bid\<close> and \<open>spend\<close>,
  returning all three.
\<close>

function impc_walk :: "sample list \<Rightarrow> real \<Rightarrow> nat \<Rightarrow> real \<Rightarrow> real \<Rightarrow> nat \<times> real \<times> real" where
  "impc_walk samples target i bid spend =
     (if i < length samples \<and> snd (samples ! i) < target
      then impc_walk samples target (i + 1) (fst (samples ! i)) (snd (samples ! i))
      else (i, bid, spend))"
  by pat_completeness auto
termination
  by (relation "measure (\<lambda>(samples, target, i, bid, spend). length samples - i)") auto

text \<open>
  \<open>sorted(bid2spend)\<close> orders the two-element lists lexicographically, which is the
  order of pairs from \<open>Product_Lexorder\<close>.
\<close>

definition impc :: "sample list \<Rightarrow> real \<Rightarrow> real" where
  "impc bid2spend target =
     (let samples = sort bid2spend;
          samples = aggregate_near_sample samples default_distance;
          samples = increasing_subsequence samples
      in if length samples = 0 then 1
         else (case impc_walk samples target 0 0 0 of
                 (i, bid, spend) \<Rightarrow>
                   if i < length samples
                   then liner_solve spend bid (snd (samples ! i)) (fst (samples ! i)) target
                   else liner_solve 0 0 (snd (last samples)) (fst (last samples)) target))"


subsection \<open>Exceptions, numpy's non-finite values, Python slices\<close>

datatype py_exn = ZeroDivisionError | IndexError

text \<open>
  What a method call leaves behind. \<open>Returned s\<close>: the call returns, the object is in
  state \<open>s\<close>. \<open>Raised e s\<close>: the call raises \<open>e\<close>; the assignments made before the raise
  stay, and \<open>s\<close> is the object as the exception leaves it. \<open>NonFinite s\<close>: the call
  returns, having assigned nan to \<open>roi_bid\<close>, which a real number cannot hold; \<open>s\<close>
  is the object as the call leaves it in every other attribute, with the \<open>roi_bid\<close>
  from before the call.
\<close>

datatype 's outcome = Returned 's | Raised py_exn 's | NonFinite 's

fun state_of :: "'s outcome \<Rightarrow> 's" where
  "state_of (Returned s) = s"
| "state_of (Raised e s) = s"
| "state_of (NonFinite s) = s"

text \<open>
  A numpy float64 where the source can produce a non-finite one: \<open>opt_spend\<close> divides
  by the fitted parameter \<open>a\<close>, which may be 0, and numpy then yields inf, -inf or nan.
\<close>

datatype npfloat = Fin real | PInf | NInf | NaN

fun np_divide :: "npfloat \<Rightarrow> real \<Rightarrow> npfloat" where
  "np_divide (Fin x) y =
     (if y = 0 then (if x > 0 then PInf else if x < 0 then NInf else NaN) else Fin (x / y))"
| "np_divide PInf y = (if y \<ge> 0 then PInf else NInf)"
| "np_divide NInf y = (if y \<ge> 0 then NInf else PInf)"
| "np_divide NaN y = NaN"

fun np_times :: "npfloat \<Rightarrow> real \<Rightarrow> npfloat" where
  "np_times (Fin x) y = Fin (x * y)"
| "np_times PInf y = (if y > 0 then PInf else if y < 0 then NInf else NaN)"
| "np_times NInf y = (if y > 0 then NInf else if y < 0 then PInf else NaN)"
| "np_times NaN y = NaN"

text \<open>\<open>np.minimum\<close> propagates nan.\<close>

fun np_minimum :: "npfloat \<Rightarrow> npfloat \<Rightarrow> npfloat" where
  "np_minimum NaN y = NaN"
| "np_minimum x NaN = NaN"
| "np_minimum NInf y = NInf"
| "np_minimum x NInf = NInf"
| "np_minimum PInf y = y"
| "np_minimum x PInf = x"
| "np_minimum (Fin x) (Fin y) = Fin (min x y)"

fun np_maximum :: "npfloat \<Rightarrow> npfloat \<Rightarrow> npfloat" where
  "np_maximum NaN y = NaN"
| "np_maximum x NaN = NaN"
| "np_maximum PInf y = PInf"
| "np_maximum x PInf = PInf"
| "np_maximum NInf y = y"
| "np_maximum x NInf = x"
| "np_maximum (Fin x) (Fin y) = Fin (max x y)"

text \<open>A finite number plus a float64.\<close>

fun np_plus :: "real \<Rightarrow> npfloat \<Rightarrow> npfloat" where
  "np_plus y (Fin x) = Fin (y + x)"
| "np_plus y PInf = PInf"
| "np_plus y NInf = NInf"
| "np_plus y NaN = NaN"

text \<open>The comparison \<open>y < x\<close> of a finite number with a float64: false for nan.\<close>

fun np_less :: "real \<Rightarrow> npfloat \<Rightarrow> bool" where
  "np_less y (Fin x) = (y < x)"
| "np_less y PInf = True"
| "np_less y NInf = False"
| "np_less y NaN = False"

text \<open>The comparison \<open>x > 0\<close> on a float64: false for nan.\<close>

fun np_positive :: "npfloat \<Rightarrow> bool" where
  "np_positive (Fin x) = (x > 0)"
| "np_positive PInf = True"
| "np_positive NInf = False"
| "np_positive NaN = False"

text \<open>
  The finite value of a float64, for statements about places where it is finite.
\<close>

fun fin :: "npfloat \<Rightarrow> real" where
  "fin (Fin x) = x"
| "fin PInf = 0"
| "fin NInf = 0"
| "fin NaN = 0"

text \<open>
  The Python slice \<open>xs[start:]\<close>: a negative start counts from the end and is
  clipped at the beginning of the list. \<open>xs[-m:]\<close> is \<open>py_slice_from (- m) xs\<close>: the
  last \<open>m\<close> elements for \<open>m > 0\<close>, the whole list for \<open>m = 0\<close>, and the list without
  its first \<open>- m\<close> elements for \<open>m < 0\<close>.
\<close>

definition py_slice_from :: "int \<Rightarrow> 'a list \<Rightarrow> 'a list" where
  "py_slice_from start xs =
     (if start < 0 then drop (nat (int (length xs) + start)) xs else drop (nat start) xs)"

text \<open>
  \<open>prices[won_mask]\<close>: numpy's boolean-mask indexing raises IndexError when the mask
  and the array differ in length.
\<close>

definition masked :: "real list \<Rightarrow> bool list \<Rightarrow> py_exn + real list" where
  "masked xs won_mask =
     (if length won_mask \<noteq> length xs then Inl IndexError
      else Inr (map fst (filter snd (zip xs won_mask))))"

subsection \<open>The response curve\<close>

text \<open>\<open>np.sqrt\<close> of a negative number is nan.\<close>

definition spend2value :: "real \<Rightarrow> real \<Rightarrow> real \<Rightarrow> npfloat" where
  "spend2value spend a b =
     (if b * b + 2 * a * spend < 0 then NaN
      else np_divide (Fin (sqrt (b * b + 2 * a * spend) - b)) a)"

definition opt_spend :: "real \<Rightarrow> real \<Rightarrow> npfloat" where
  "opt_spend a b = np_divide (Fin (2 - 2 * b)) a"

text \<open>
  \<open>fitf\<close> calls \<open>scipy.optimize.curve_fit\<close>, which is not code of this repository:
  what it returns for a spend and a value history is the parameter \<open>fitf\<close> of the
  model, \<open>Some (a, b)\<close> for the fitted parameters and \<open>None\<close> when it raises.
  \<open>fit_model\<close> catches the exception.
\<close>

type_synonym fitter = "real list \<Rightarrow> real list \<Rightarrow> (real \<times> real) option"

definition fit_model :: "fitter \<Rightarrow> real list \<Rightarrow> real list \<Rightarrow> bool \<times> real \<times> real" where
  "fit_model fitf spend val =
     (case fitf spend val of Some (a, b) \<Rightarrow> (True, a, b) | None \<Rightarrow> (False, 1, 1))"

subsection \<open>The bidders\<close>

text \<open>
  Each class is a record of its attributes, a subclass extending the record of its
  parent. The random generator is used once, by the constructor, to draw the budget:
  the constructors of the model take the budget drawn. The attribute \<open>truthful\<close> and
  the arguments a method never reads are left out, except for the arguments of
  \<open>charge\<close> and \<open>bid\<close>. The argument \<open>value\<close> of the source is written \<open>val\<close>.
\<close>

record budget_bidder =
  budget :: real
  spending :: real

definition BudgetRistrictedBidder_init :: "real \<Rightarrow> budget_bidder" where
  "BudgetRistrictedBidder_init drawn = \<lparr>budget = drawn, spending = 0\<rparr>"

definition BudgetRistrictedBidder_charge ::
  "real \<Rightarrow> int \<Rightarrow> real \<Rightarrow> real \<Rightarrow> 'a budget_bidder_scheme \<Rightarrow> 'a budget_bidder_scheme" where
  "BudgetRistrictedBidder_charge price cur_round estimated_CTR val self =
     self\<lparr>spending := spending self + price\<rparr>"

definition BudgetRistrictedBidder_update :: "'a budget_bidder_scheme \<Rightarrow> 'a budget_bidder_scheme" where
  "BudgetRistrictedBidder_update self = self\<lparr>spending := 0\<rparr>"

definition TruthfulBudgetRistricctedBidder_bid ::
  "'a budget_bidder_scheme \<Rightarrow> real \<Rightarrow> 'c \<Rightarrow> real \<Rightarrow> real" where
  "TruthfulBudgetRistricctedBidder_bid self val context estimated_CTR =
     (if spending self < budget self then val * estimated_CTR else 0)"

record impc_bidder = budget_bidder +
  rounds_per_step :: int
  rounds_per_iter :: int
  target_step_spending :: real
  bid2spend_history :: "sample list"
  bid_step :: real
  roi_bid :: real
  step_spending :: real
  memory :: int

text \<open>
  The constructor divides the budget, a Python float, by \<open>rounds_per_iter\<close>, which
  raises ZeroDivisionError for 0.
\<close>

definition IMPCBudgetBidder_init ::
  "real \<Rightarrow> int \<Rightarrow> int \<Rightarrow> real \<Rightarrow> int \<Rightarrow> py_exn + impc_bidder" where
  "IMPCBudgetBidder_init drawn rpi rps step mem =
     (if rpi = 0 then Inl ZeroDivisionError
      else Inr \<lparr>budget = drawn, spending = 0,
                rounds_per_step = rps, rounds_per_iter = rpi,
                target_step_spending = drawn * real_of_int rps / real_of_int rpi,
                bid2spend_history = [], bid_step = step, roi_bid = 1,
                step_spending = 0, memory = mem\<rparr>)"

definition calc_roi_bid :: "'a impc_bidder_scheme \<Rightarrow> real \<Rightarrow> real" where
  "calc_roi_bid self target =
     (if step_spending self < 1 / 1000000 then roi_bid self + bid_step self
      else (let bid = impc (bid2spend_history self) target
            in min (max bid (roi_bid self - bid_step self)) (roi_bid self + bid_step self)))"

definition IMPCBudgetBidder_charge ::
  "real \<Rightarrow> int \<Rightarrow> real \<Rightarrow> real \<Rightarrow> 'a impc_bidder_scheme \<Rightarrow> 'a impc_bidder_scheme outcome" where
  "IMPCBudgetBidder_charge price cur_round estimated_CTR val self =
     (let self = self\<lparr>spending := spending self + price\<rparr>;
          self = self\<lparr>step_spending := step_spending self + price\<rparr>
      in if rounds_per_step self = 0 then Raised ZeroDivisionError self
         else if cur_round mod rounds_per_step self = 0
         then (let self = self\<lparr>bid2spend_history :=
                             bid2spend_history self @ [(roi_bid self, step_spending self)]\<rparr>;
                   self = self\<lparr>roi_bid := calc_roi_bid self (target_step_spending self)\<rparr>;
                   self = self\<lparr>step_spending := 0\<rparr>;
                   self = self\<lparr>bid2spend_history :=
                             py_slice_from (- memory self) (bid2spend_history self)\<rparr>
               in Returned self)
         else Returned self)"

definition IMPCBudgetBidder_bid :: "'a impc_bidder_scheme \<Rightarrow> real \<Rightarrow> 'c \<Rightarrow> real \<Rightarrow> real" where
  "IMPCBudgetBidder_bid self val context estimated_CTR =
     (if spending self < budget self then val * estimated_CTR * roi_bid self else 0)"

definition IMPCBudgetBidder_update :: "'a impc_bidder_scheme \<Rightarrow> 'a impc_bidder_scheme" where
  "IMPCBudgetBidder_update self = self\<lparr>spending := 0\<rparr>"

definition IMPCBudgetBidder_reset :: "'a impc_bidder_scheme \<Rightarrow> 'a impc_bidder_scheme" where
  "IMPCBudgetBidder_reset self =
     self\<lparr>bid2spend_history := [], spending := 0, roi_bid := 1\<rparr>"

text \<open>
  \<open>BidCapBidder\<close> inherits everything but \<open>charge\<close>; when the inherited \<open>charge\<close>
  raises, the cap after it is not reached.
\<close>

definition BidCapBidder_charge ::
  "real \<Rightarrow> int \<Rightarrow> real \<Rightarrow> real \<Rightarrow> 'a impc_bidder_scheme \<Rightarrow> 'a impc_bidder_scheme outcome" where
  "BidCapBidder_charge price cur_round estimated_CTR val self =
     (case IMPCBudgetBidder_charge price cur_round estimated_CTR val self of
        Returned self \<Rightarrow> Returned (self\<lparr>roi_bid := min (roi_bid self) 1\<rparr>)
      | Raised e self \<Rightarrow> Raised e self
      | NonFinite self \<Rightarrow> NonFinite self)"

text \<open>
  The target that \<open>SPBBidder.charge\<close> computes from \<open>optimal_budget\<close> is a float64
  and may be inf or nan. \<open>liner_solve_np\<close>, \<open>impc_walk_np\<close>, \<open>impc_np\<close> and
  \<open>calc_roi_bid_np\<close> are \<open>liner_solve\<close>, the walk of \<open>impc\<close>, \<open>impc\<close> and
  \<open>calc_roi_bid\<close> on such a target, with numpy's comparison and arithmetic where the
  target enters: \<open>(y2 - y1) * (x - x1) / (x2 - x1)\<close> is evaluated from the left. On a
  finite target they are the functions above (\<open>calc_roi_bid_np_Fin\<close> below).
\<close>

definition liner_solve_np :: "real \<Rightarrow> real \<Rightarrow> real \<Rightarrow> real \<Rightarrow> npfloat \<Rightarrow> npfloat" where
  "liner_solve_np x1 y1 x2 y2 x =
     (if \<bar>x1 - x2\<bar> < 1 / 1000000 then Fin ((y1 + y2) / 2)
      else np_plus y1 (np_divide (np_times (np_plus (- x1) x) (y2 - y1)) (x2 - x1)))"

function impc_walk_np ::
  "sample list \<Rightarrow> npfloat \<Rightarrow> nat \<Rightarrow> real \<Rightarrow> real \<Rightarrow> nat \<times> real \<times> real" where
  "impc_walk_np samples target i bid spend =
     (if i < length samples \<and> np_less (snd (samples ! i)) target
      then impc_walk_np samples target (i + 1) (fst (samples ! i)) (snd (samples ! i))
      else (i, bid, spend))"
  by pat_completeness auto
termination
  by (relation "measure (\<lambda>(samples, target, i, bid, spend). length samples - i)") auto

definition impc_np :: "sample list \<Rightarrow> npfloat \<Rightarrow> npfloat" where
  "impc_np bid2spend target =
     (let samples = sort bid2spend;
          samples = aggregate_near_sample samples default_distance;
          samples = increasing_subsequence samples
      in if length samples = 0 then Fin 1
         else (case impc_walk_np samples target 0 0 0 of
                 (i, bid, spend) \<Rightarrow>
                   if i < length samples
                   then liner_solve_np spend bid (snd (samples ! i)) (fst (samples ! i)) target
                   else liner_solve_np 0 0 (snd (last samples)) (fst (last samples)) target))"

definition calc_roi_bid_np :: "'a impc_bidder_scheme \<Rightarrow> npfloat \<Rightarrow> npfloat" where
  "calc_roi_bid_np self target =
     (if step_spending self < 1 / 1000000 then Fin (roi_bid self + bid_step self)
      else (let bid = impc_np (bid2spend_history self) target
            in np_minimum (np_maximum bid (Fin (roi_bid self - bid_step self)))
                 (Fin (roi_bid self + bid_step self))))"

record spb_bidder = impc_bidder +
  spb_memory :: int
  explore_bid_max :: real
  optimal_budget :: npfloat
  spend_history :: "real list"
  value_history :: "real list"

definition SPBBidder_init ::
  "real \<Rightarrow> int \<Rightarrow> int \<Rightarrow> real \<Rightarrow> int \<Rightarrow> int \<Rightarrow> real \<Rightarrow> py_exn + spb_bidder" where
  "SPBBidder_init drawn rpi rps step mem spb_mem explore_max =
     (if rpi = 0 then Inl ZeroDivisionError
      else Inr \<lparr>budget = drawn, spending = 0,
                rounds_per_step = rps, rounds_per_iter = rpi,
                target_step_spending = drawn * real_of_int rps / real_of_int rpi,
                bid2spend_history = [], bid_step = step, roi_bid = 1,
                step_spending = 0, memory = mem,
                spb_memory = spb_mem, explore_bid_max = explore_max,
                optimal_budget = Fin (- 1), spend_history = [], value_history = []\<rparr>)"

text \<open>
  In \<open>SPBBidder.charge\<close> the target of the first branch (\<open>target\<close> here, the
  local \<open>target_step_spending\<close> of the source) is a numpy product and quotient, as
  \<open>optimal_budget\<close> is a float64 there: for \<open>rounds_per_iter = 0\<close> it is inf or nan
  and the call goes on with it. The target of the second (\<open>nominal\<close> here, the local
  \<open>step_spending\<close> of the source) is a Python one, as \<open>budget\<close> is a Python float,
  and raises for \<open>rounds_per_iter = 0\<close>.
\<close>

definition SPBBidder_charge ::
  "real \<Rightarrow> int \<Rightarrow> real \<Rightarrow> real \<Rightarrow> 'a spb_bidder_scheme \<Rightarrow> 'a spb_bidder_scheme outcome" where
  "SPBBidder_charge price cur_round estimated_CTR val self =
     (let self = self\<lparr>spending := spending self + price\<rparr>;
          self = self\<lparr>step_spending := step_spending self + price\<rparr>
      in if rounds_per_step self = 0 then Raised ZeroDivisionError self
         else if cur_round mod rounds_per_step self = 0
         then (let self = self\<lparr>bid2spend_history :=
                             bid2spend_history self @ [(roi_bid self, step_spending self)]\<rparr>;
                   finish = (\<lambda>self.
                     (let self = self\<lparr>step_spending := 0\<rparr>
                      in self\<lparr>bid2spend_history :=
                               py_slice_from (- memory self) (bid2spend_history self)\<rparr>))
               in if np_positive (optimal_budget self)
                  then (let target = np_divide (np_times (optimal_budget self)
                                       (real_of_int (rounds_per_step self)))
                                     (real_of_int (rounds_per_iter self))
                        in case calc_roi_bid_np self target of
                             Fin bid \<Rightarrow> Returned (finish (self\<lparr>roi_bid := bid\<rparr>))
                           | _ \<Rightarrow> NonFinite (finish self))
                  else if rounds_per_iter self = 0 then Raised ZeroDivisionError self
                  else (let nominal = budget self * real_of_int (rounds_per_step self)
                                        / real_of_int (rounds_per_iter self);
                            bid = calc_roi_bid self nominal
                        in Returned (finish (self\<lparr>roi_bid := min bid (explore_bid_max self)\<rparr>))))
         else Returned self)"

text \<open>
  \<open>SPBBidder.update\<close>: of its arguments it reads \<open>contexts\<close> (only whether it is
  None), \<open>prices\<close>, \<open>sum_values\<close> and \<open>won_mask\<close>. \<open>SPBBidder_update_fit\<close> is its
  second half, from \<open>model_ready, a, b = False, 1, 1\<close> on, which both branches of the
  test on \<open>contexts\<close> reach.
\<close>

definition SPBBidder_update_fit :: "fitter \<Rightarrow> 'a spb_bidder_scheme \<Rightarrow> 'a spb_bidder_scheme" where
  "SPBBidder_update_fit fitf self =
     (case (if length (spend_history self) > 1
            then fit_model fitf (spend_history self) (value_history self)
            else (False, 1, 1)) of
        (model_ready, a, b) \<Rightarrow>
          (let self = (if model_ready
                       then self\<lparr>optimal_budget :=
                                  np_minimum (opt_spend a b) (Fin (budget self))\<rparr>
                       else self\<lparr>optimal_budget := Fin (- 1)\<rparr>)
           in self\<lparr>spending := 0\<rparr>))"

definition SPBBidder_update ::
  "fitter \<Rightarrow> 'c option \<Rightarrow> real list \<Rightarrow> real \<Rightarrow> bool list \<Rightarrow>
   'a spb_bidder_scheme \<Rightarrow> 'a spb_bidder_scheme outcome" where
  "SPBBidder_update fitf contexts prices sum_values won_mask self =
     (case contexts of
        None \<Rightarrow> Returned (SPBBidder_update_fit fitf self)
      | Some c \<Rightarrow>
          (case masked prices won_mask of
             Inl e \<Rightarrow> Raised e self
           | Inr won \<Rightarrow>
               (let self = self\<lparr>spend_history := spend_history self @ [sum_list won]\<rparr>;
                    self = self\<lparr>spend_history :=
                             py_slice_from (- spb_memory self) (spend_history self)\<rparr>;
                    self = self\<lparr>value_history := value_history self @ [sum_values]\<rparr>;
                    self = self\<lparr>value_history :=
                             py_slice_from (- spb_memory self) (value_history self)\<rparr>
                in Returned (SPBBidder_update_fit fitf self))))"

definition SPBBidder_reset :: "'a spb_bidder_scheme \<Rightarrow> 'a spb_bidder_scheme" where
  "SPBBidder_reset self =
     (let self = IMPCBudgetBidder_reset self
      in self\<lparr>optimal_budget := Fin (- 1), spend_history := [], value_history := []\<rparr>)"

text \<open>
  \<open>MPCBidder\<close>, the PID controller on the return on investment, is a subclass of
  \<open>BudgetRistrictedBidder\<close> only; the attributes it names like those of
  \<open>IMPCBudgetBidder\<close> carry the prefix \<open>mpc\<close> here. Its \<open>reset\<close> is commented out in
  the source: the class has no such method. Its \<open>update\<close> is not modelled.
\<close>

record mpc_bidder = budget_bidder +
  mpc_rounds_per_step :: int
  mpc_rounds_per_iter :: int
  mpc_bid_step :: real
  mpc_roi_bid :: real
  prediction_diff :: real
  estimated_value :: real
  mpc_memory :: int
  mpc_value_history :: "real list"
  estimated_value_history :: "real list"
  bid_min :: real
  bid_max :: real
  kp :: real
  ki :: real
  kd :: real
  error_p :: real
  last_error_p :: real
  error_i :: real
  error_d :: real

definition MPCBidder_init ::
  "real \<Rightarrow> int \<Rightarrow> int \<Rightarrow> real \<Rightarrow> int \<Rightarrow> real \<Rightarrow> real \<Rightarrow> real \<Rightarrow> real \<Rightarrow> real \<Rightarrow> mpc_bidder" where
  "MPCBidder_init drawn rpi rps step mem p i d lo hi =
     \<lparr>budget = drawn, spending = 0,
      mpc_rounds_per_step = rps, mpc_rounds_per_iter = rpi, mpc_bid_step = step,
      mpc_roi_bid = 1, prediction_diff = 1, estimated_value = 0, mpc_memory = mem,
      mpc_value_history = [], estimated_value_history = [],
      bid_min = lo, bid_max = hi, kp = p, ki = i, kd = d,
      error_p = 0, last_error_p = 0, error_i = 0, error_d = 0\<rparr>"

definition MPCBidder_charge ::
  "real \<Rightarrow> int \<Rightarrow> real \<Rightarrow> real \<Rightarrow> 'a mpc_bidder_scheme \<Rightarrow> 'a mpc_bidder_scheme outcome" where
  "MPCBidder_charge price cur_round estimated_CTR val self =
     (let self = (if price > 0
                  then (let self = self\<lparr>spending := spending self + price\<rparr>
                        in self\<lparr>estimated_value := estimated_value self + estimated_CTR * val\<rparr>)
                  else self)
      in if mpc_rounds_per_step self = 0 then Raised ZeroDivisionError self
         else if cur_round mod mpc_rounds_per_step self = 0
         then (let roi_target = 1;
                   val = estimated_value self * prediction_diff self
               in if spending self > 0 \<and> val > 0
                  then (let val = estimated_value self * prediction_diff self;
                            roi = val / spending self;
                            self = self\<lparr>error_p := roi - roi_target\<rparr>;
                            self = self\<lparr>error_i := error_i self + error_p self\<rparr>;
                            self = self\<lparr>error_d := error_p self - last_error_p self\<rparr>;
                            self = self\<lparr>last_error_p := error_p self\<rparr>;
                            control = kp self * error_p self + ki self * error_i self
                                        + kd self * error_d self;
                            bid = mpc_roi_bid self + control;
                            self = self\<lparr>mpc_roi_bid :=
                                      min (max bid (mpc_roi_bid self - mpc_bid_step self))
                                          (mpc_roi_bid self + mpc_bid_step self)\<rparr>;
                            self = self\<lparr>mpc_roi_bid :=
                                      min (max (mpc_roi_bid self) (bid_min self)) (bid_max self)\<rparr>
                        in Returned self)
                  else Returned (self\<lparr>mpc_roi_bid :=
                                    min (bid_max self) (mpc_roi_bid self + mpc_bid_step self)\<rparr>))
         else Returned self)"

definition MPCBidder_bid :: "'a mpc_bidder_scheme \<Rightarrow> real \<Rightarrow> 'c \<Rightarrow> real \<Rightarrow> real" where
  "MPCBidder_bid self val context estimated_CTR =
     (if spending self < budget self then val * estimated_CTR * mpc_roi_bid self else 0)"

subsection \<open>Sequences of calls\<close>

text \<open>
  The calls the harness makes on a bidder between its construction and some later
  moment, each leaving the object in the state the next call finds. A call that raises
  leaves the object as the exception found it.
\<close>

datatype 'c call =
    Charge real int real real
  | Update "'c option" "real list" real "bool list"
  | Reset

fun IMPCBudgetBidder_call :: "'c call \<Rightarrow> impc_bidder \<Rightarrow> impc_bidder" where
  "IMPCBudgetBidder_call (Charge price cur_round estimated_CTR val) self =
     state_of (IMPCBudgetBidder_charge price cur_round estimated_CTR val self)"
| "IMPCBudgetBidder_call (Update contexts prices sum_values won_mask) self =
     IMPCBudgetBidder_update self"
| "IMPCBudgetBidder_call Reset self = IMPCBudgetBidder_reset self"

fun BidCapBidder_call :: "'c call \<Rightarrow> impc_bidder \<Rightarrow> impc_bidder" where
  "BidCapBidder_call (Charge price cur_round estimated_CTR val) self =
     state_of (BidCapBidder_charge price cur_round estimated_CTR val self)"
| "BidCapBidder_call (Update contexts prices sum_values won_mask) self =
     IMPCBudgetBidder_update self"
| "BidCapBidder_call Reset self = IMPCBudgetBidder_reset self"

fun SPBBidder_call :: "fitter \<Rightarrow> 'c call \<Rightarrow> spb_bidder \<Rightarrow> spb_bidder" where
  "SPBBidder_call fitf (Charge price cur_round estimated_CTR val) self =
     state_of (SPBBidder_charge price cur_round estimated_CTR val self)"
| "SPBBidder_call fitf (Update contexts prices sum_values won_mask) self =
     state_of (SPBBidder_update fitf contexts prices sum_values won_mask self)"
| "SPBBidder_call fitf Reset self = SPBBidder_reset self"

definition IMPCBudgetBidder_run :: "'c call list \<Rightarrow> impc_bidder \<Rightarrow> impc_bidder" where
  "IMPCBudgetBidder_run calls self = foldl (\<lambda>self c. IMPCBudgetBidder_call c self) self calls"

definition BidCapBidder_run :: "'c call list \<Rightarrow> impc_bidder \<Rightarrow> impc_bidder" where
  "BidCapBidder_run calls self = foldl (\<lambda>self c. BidCapBidder_call c self) self calls"

definition SPBBidder_run :: "fitter \<Rightarrow> 'c call list \<Rightarrow> spb_bidder \<Rightarrow> spb_bidder" where
  "SPBBidder_run fitf calls self = foldl (\<lambda>self c. SPBBidder_call fitf c self) self calls"

subsection \<open>Auxiliary notions of the properties\<close>

text \<open>
  The denoise step as the specification words it: the list is cut into runs, a sample
  joining the current run when its bid is within relative distance \<open>distance\<close> of the
  first bid of the run and starting a new run otherwise, and the output is the mean of
  each run. This is the reading of the specification, not the source; it is compared
  with \<open>aggregate_near_sample\<close> below.
\<close>

fun runs_spec :: "real \<Rightarrow> sample list \<Rightarrow> sample list \<Rightarrow> sample list list" where
  "runs_spec distance current [] = (if current = [] then [] else [current])"
| "runs_spec distance current (s # samples) =
     (if current = [] \<or> \<bar>fst s - fst (hd current)\<bar> < distance * \<bar>fst (hd current)\<bar>
      then runs_spec distance (current @ [s]) samples
      else current # runs_spec distance [s] samples)"

definition denoise_spec :: "sample list \<Rightarrow> real \<Rightarrow> sample list" where
  "denoise_spec samples distance = map mean_sample (runs_spec distance [] samples)"

text \<open>
  The value curve as a real function of the spend, for the places where
  \<open>spend2value\<close> is finite.
\<close>

definition spend2value_curve :: "real \<Rightarrow> real \<Rightarrow> real \<Rightarrow> real" where
  "spend2value_curve a b spend = fin (spend2value spend a b)"

text \<open>
  The attributes of an \<open>IMPCBudgetBidder\<close> and of an \<open>SPBBidder\<close> that only the
  constructor assigns.
\<close>

definition same_config :: "'a impc_bidder_scheme \<Rightarrow> 'b impc_bidder_scheme \<Rightarrow> bool" where
  "same_config s t \<longleftrightarrow>
     budget s = budget t \<and> rounds_per_step s = rounds_per_step t \<and>
     rounds_per_iter s = rounds_per_iter t \<and>
     target_step_spending s = target_step_spending t \<and>
     bid_step s = bid_step t \<and> memory s = memory t"

definition same_spb_config :: "spb_bidder \<Rightarrow> spb_bidder \<Rightarrow> bool" where
  "same_spb_config s t \<longleftrightarrow>
     same_config s t \<and> spb_memory s = spb_memory t \<and>
     explore_bid_max s = explore_bid_max t"

text \<open>
  The optimal budget of an \<open>SPBBidder\<close>, when it is positive, is a finite number
  that does not exceed the budget.
\<close>

definition budget_respected :: "'a spb_bidder_scheme \<Rightarrow> bool" where
  "budget_respected s \<longleftrightarrow>
     (np_positive (optimal_budget s) \<longrightarrow>
        (\<exists>x. optimal_budget s = Fin x \<and> 0 < x \<and> x \<le> budget s))"

text \<open>
  Two freshly constructed bidders used as concrete inputs: budget 10, 10 rounds per
  iteration, 2 rounds per step, bid step 0.1, memory 5 (and, for the \<open>SPBBidder\<close>,
  \<open>spb_memory\<close> 5 and \<open>explore_bid_max\<close> 2).
\<close>

definition impc_example :: impc_bidder where
  "impc_example =
     \<lparr>budget = 10, spending = 0, rounds_per_step = 2, rounds_per_iter = 10,
      target_step_spending = 2, bid2spend_history = [], bid_step = 1 / 10, roi_bid = 1,
      step_spending = 0, memory = 5\<rparr>"

definition spb_example :: spb_bidder where
  "spb_example =
     \<lparr>budget = 10, spending = 0, rounds_per_step = 2, rounds_per_iter = 10,
      target_step_spending = 2, bid2spend_history = [], bid_step = 1 / 10, roi_bid = 1,
      step_spending = 0, memory = 5, spb_memory = 5, explore_bid_max = 2,
      optimal_budget = Fin (- 1), spend_history = [], value_history = []\<rparr>"

subsection \<open>Double precision\<close>

text \<open>
  Whether \<open>roi_bid\<close> moves by at most \<open>bid_step\<close> is a matter of one rounding error,
  so for that question \<open>charge\<close> and \<open>calc_roi_bid\<close> of \<open>IMPCBudgetBidder\<close> are
  modelled once more, with every sum and difference rounded as Python rounds it.
  \<open>fl x\<close> is the double nearest to \<open>x\<close>, ties going to the even significand: with
  \<open>expo x\<close> the binary exponent of \<open>x\<close> (\<open>2 ^ expo x \<le> \<bar>x\<bar> < 2 ^ (expo x + 1)\<close>),
  \<open>x\<close> is rounded to a multiple of \<open>2 ^ (expo x - 52)\<close>, which leaves a significand of
  53 bits. The range of the exponent is not bounded: overflow and underflow stay
  outside the model.
\<close>

definition expo :: "real \<Rightarrow> int" where
  "expo x = (if 1 \<le> \<bar>x\<bar> then bitlen \<lfloor>\<bar>x\<bar>\<rfloor> - 1 else - bitlen (\<lceil>1 / \<bar>x\<bar>\<rceil> - 1))"

text \<open>Rounding to the nearest integer, a tie going to the even one.\<close>

definition rne :: "real \<Rightarrow> int" where
  "rne t = (let n = \<lfloor>t\<rfloor>; r = t - of_int n
            in if r < 1 / 2 then n else if 1 / 2 < r then n + 1
               else if even n then n else n + 1)"

definition fl :: "real \<Rightarrow> real" where
  "fl x = (if x = 0 then 0
           else of_int (rne (x / 2 powi (expo x - 52))) * 2 powi (expo x - 52))"

text \<open>
  The solver \<open>impc\<close> rounds in many places (the order in which \<open>np.mean\<close> sums is one
  of them), which are not modelled: in the double-precision \<open>calc_roi_bid\<close> and
  \<open>charge\<close> the solver is the parameter \<open>solver\<close>, and what is proved of them holds
  for whatever number the solver returns. The literal \<open>1e-6\<close> is the double
  \<open>fl (1 / 1000000)\<close>.
\<close>

definition calc_roi_bid_fl ::
  "(sample list \<Rightarrow> real \<Rightarrow> real) \<Rightarrow> 'a impc_bidder_scheme \<Rightarrow> real \<Rightarrow> real" where
  "calc_roi_bid_fl solver self target =
     (if step_spending self < fl (1 / 1000000) then fl (roi_bid self + bid_step self)
      else (let bid = solver (bid2spend_history self) target
            in min (max bid (fl (roi_bid self - bid_step self)))
                   (fl (roi_bid self + bid_step self))))"

definition IMPCBudgetBidder_charge_fl ::
  "(sample list \<Rightarrow> real \<Rightarrow> real) \<Rightarrow> real \<Rightarrow> int \<Rightarrow> real \<Rightarrow> real \<Rightarrow>
   'a impc_bidder_scheme \<Rightarrow> 'a impc_bidder_scheme outcome" where
  "IMPCBudgetBidder_charge_fl solver price cur_round estimated_CTR val self =
     (let self = self\<lparr>spending := fl (spending self + price)\<rparr>;
          self = self\<lparr>step_spending := fl (step_spending self + price)\<rparr>
      in if rounds_per_step self = 0 then Raised ZeroDivisionError self
         else if cur_round mod rounds_per_step self = 0
         then (let self = self\<lparr>bid2spend_history :=
                             bid2spend_history self @ [(roi_bid self, step_spending self)]\<rparr>;
                   self = self\<lparr>roi_bid :=
                             calc_roi_bid_fl solver self (target_step_spending self)\<rparr>;
                   self = self\<lparr>step_spending := 0\<rparr>;
                   self = self\<lparr>bid2spend_history :=
                             py_slice_from (- memory self) (bid2spend_history self)\<rparr>
               in Returned self)
         else Returned self)"

text \<open>
  The example bidder constructed with \<open>bid_step = 0.1\<close>: the literal is the double
  \<open>fl (1 / 10)\<close>; the other attributes of the example are doubles as they are.
\<close>

definition impc_example_fl :: impc_bidder where
  "impc_example_fl = impc_example\<lparr>bid_step := fl (1 / 10)\<rparr>"

section \<open>Properties of the curve solver\<close>

subsection \<open>The monotonic envelope\<close>

lemma bsearch_range: "l \<le> r \<Longrightarrow> l \<le> bsearch s result l r \<and> bsearch s result l r \<le> r"
proof (induction s result l r rule: bsearch.induct)
  case (1 s result l r)
  show ?case
  proof (cases "l < r")
    case False
    with "1.prems" show ?thesis by (subst bsearch.simps, subst (2) bsearch.simps) simp
  next
    case True
    define mid where "mid = (l + r) div 2"
    have m: "l \<le> mid" "mid < r" using True by (auto simp: mid_def)
    show ?thesis
    proof (cases "snd s \<ge> snd (result ! mid)")
      case ge: True
      have "mid + 1 \<le> bsearch s result (mid + 1) r \<and> bsearch s result (mid + 1) r \<le> r"
        using "1.IH"(1)[OF True mid_def ge] m by simp
      moreover have "bsearch s result l r = bsearch s result (mid + 1) r"
        using True ge by (subst bsearch.simps) (simp add: mid_def Let_def)
      ultimately show ?thesis using m by simp
    next
      case lt: False
      have "l \<le> bsearch s result l mid \<and> bsearch s result l mid \<le> mid"
        using "1.IH"(2)[OF True mid_def lt] m by simp
      moreover have "bsearch s result l r = bsearch s result l mid"
        using True lt by (subst bsearch.simps) (simp add: mid_def Let_def)
      ultimately show ?thesis using m by simp
    qed
  qed
qed

text \<open>
  On a result sorted by spend the search keeps its invariant: everything left of \<open>l\<close>
  spends at most as much as \<open>s\<close>, everything from \<open>r\<close> on spends more.
\<close>

lemma bsearch_split:
  "sorted (map snd result) \<Longrightarrow> l \<le> r \<Longrightarrow> r \<le> length result \<Longrightarrow>
   (\<forall>i<l. snd (result ! i) \<le> snd s) \<Longrightarrow>
   (\<forall>i. r \<le> i \<and> i < length result \<longrightarrow> snd s < snd (result ! i)) \<Longrightarrow>
   (\<forall>i<bsearch s result l r. snd (result ! i) \<le> snd s) \<and>
   (\<forall>i. bsearch s result l r \<le> i \<and> i < length result \<longrightarrow> snd s < snd (result ! i))"
proof (induction s result l r rule: bsearch.induct)
  case (1 s result l r)
  show ?case
  proof (cases "l < r")
    case False
    then have "bsearch s result l r = l" by (subst bsearch.simps) simp
    with "1.prems" False show ?thesis by simp
  next
    case True
    define mid where "mid = (l + r) div 2"
    have m: "l \<le> mid" "mid < r" using True by (auto simp: mid_def)
    have srt: "\<And>i j. i \<le> j \<Longrightarrow> j < length result \<Longrightarrow> snd (result ! i) \<le> snd (result ! j)"
      using "1.prems"(1) by (simp add: sorted_iff_nth_mono)
    show ?thesis
    proof (cases "snd s \<ge> snd (result ! mid)")
      case ge: True
      have eq: "bsearch s result l r = bsearch s result (mid + 1) r"
        using True ge by (subst bsearch.simps) (simp add: mid_def Let_def)
      have low: "\<forall>i<mid + 1. snd (result ! i) \<le> snd s"
      proof (intro allI impI)
        fix i assume "i < mid + 1"
        then have "snd (result ! i) \<le> snd (result ! mid)"
          using srt[of i mid] m "1.prems"(3) by simp
        with ge show "snd (result ! i) \<le> snd s" by simp
      qed
      show ?thesis unfolding eq
        using "1.IH"(1)[OF True mid_def ge "1.prems"(1) _ "1.prems"(3) low "1.prems"(5)] m by simp
    next
      case lt: False
      have eq: "bsearch s result l r = bsearch s result l mid"
        using True lt by (subst bsearch.simps) (simp add: mid_def Let_def)
      have high: "\<forall>i. mid \<le> i \<and> i < length result \<longrightarrow> snd s < snd (result ! i)"
      proof (intro allI impI)
        fix i assume "mid \<le> i \<and> i < length result"
        then have "snd (result ! mid) \<le> snd (result ! i)" using srt[of mid i] by simp
        with lt show "snd s < snd (result ! i)" by simp
      qed
      show ?thesis unfolding eq
        using "1.IH"(2)[OF True mid_def lt "1.prems"(1) _ _ "1.prems"(4) high] m "1.prems"(3) by simp
    qed
  qed
qed

lemma place_sorted:
  assumes "sorted (map snd result)"
  shows "sorted (map snd (place result s))"
proof -
  define k where "k = bsearch s result 0 (length result)"
  have kr: "k \<le> length result" using bsearch_range[of 0 "length result" s result] by (simp add: k_def)
  have sp: "(\<forall>i<k. snd (result ! i) \<le> snd s) \<and>
            (\<forall>i. k \<le> i \<and> i < length result \<longrightarrow> snd s < snd (result ! i))"
    unfolding k_def using bsearch_split[OF assms, of 0 "length result" s] by simp
  have srt: "\<And>i j. i \<le> j \<Longrightarrow> j < length result \<Longrightarrow> snd (result ! i) \<le> snd (result ! j)"
    using assms by (simp add: sorted_iff_nth_mono)
  show ?thesis
  proof (cases "k = length result")
    case True
    then have "place result s = result @ [s]" by (simp add: place_def k_def Let_def)
    moreover have "\<forall>x\<in>set (map snd result). x \<le> snd s"
      using sp True by (fastforce simp: in_set_conv_nth)
    ultimately show ?thesis using assms by (simp add: sorted_append)
  next
    case False
    then have pl: "place result s = result[k := s]" by (simp add: place_def k_def Let_def)
    have klt: "k < length result" using kr False by simp
    show ?thesis unfolding pl sorted_iff_nth_mono
    proof (intro allI impI)
      fix i j assume ij: "i \<le> j" and j: "j < length (map snd (result[k := s]))"
      then have jl: "j < length result" and il: "i < length result" by simp_all
      consider "i = k" "j = k" | "i = k" "j \<noteq> k" | "i \<noteq> k" "j = k" | "i \<noteq> k" "j \<noteq> k" by blast
      then show "map snd (result[k := s]) ! i \<le> map snd (result[k := s]) ! j"
      proof cases
        case 1 then show ?thesis using il by simp
      next
        case 2
        then have "snd s < snd (result ! j)" using sp ij jl by simp
        then show ?thesis using 2 il jl by simp
      next
        case 3
        then have "snd (result ! i) \<le> snd s" using sp ij by simp
        then show ?thesis using 3 il jl by simp
      next
        case 4 then show ?thesis using il jl srt[OF ij jl] by simp
      qed
    qed
  qed
qed

lemma foldl_place_sorted:
  "sorted (map snd acc) \<Longrightarrow> sorted (map snd (foldl place acc samples))"
  by (induction samples arbitrary: acc) (simp_all add: place_sorted)

text \<open>
  Claim C5. For every list of samples, the spends of the sequence that
  \<open>increasing_subsequence\<close> returns are non-decreasing from the first element to the
  last.
\<close>

theorem increasing_subsequence_sorted:
  "sorted (map snd (increasing_subsequence samples))"
  unfolding increasing_subsequence_def by (rule foldl_place_sorted) simp

subsection \<open>The solver on two points\<close>

text \<open>
  Claim C4. On the history \<open>[(1, 10), (2, 20)]\<close> with target spend 15 the solver
  returns exactly 1.5. (The denoise step keeps \<open>(1, 10)\<close> only, and the value is the
  extrapolation through the origin and \<open>(1, 10)\<close>, which meets the interpolation
  between the two points at this target.)
\<close>

theorem impc_two_points: "impc [(1, 10), (2, 20)] 15 = 3 / 2"
  by code_simp

subsection \<open>The denoise step\<close>

lemma concat_runs_spec: "concat (runs_spec distance current samples) = current @ samples"
  by (induction samples arbitrary: current) auto

text \<open>
  Claim C1. The claim is that the denoise step cuts the list into runs and returns the
  mean of each run, so that no sample is discarded. On \<open>[(1, 10), (2, 20)]\<close> the
  source returns \<open>[(1, 10)]\<close>: the sample \<open>(2, 20)\<close>, which closes the run of \<open>(1, 10)\<close>,
  is neither averaged into a run nor kept. The denoise step of the specification
  returns both samples.
\<close>

theorem aggregate_near_sample_discards:
  "aggregate_near_sample [(1, 10), (2, 20)] default_distance = [(1, 10)] \<and>
   denoise_spec [(1, 10), (2, 20)] default_distance = [(1, 10), (2, 20)]"
  by (simp add: aggregate_near_sample_def denoise_spec_def default_distance_def
      mean_sample_def mean_def)

subsection \<open>The solver on a float64 target\<close>

text \<open>
  On a finite target the functions that follow numpy on inf and nan are the functions
  on real numbers.
\<close>

lemma liner_solve_np_Fin:
  "liner_solve_np x1 y1 x2 y2 (Fin x) = Fin (liner_solve x1 y1 x2 y2 x)"
proof (cases "\<bar>x1 - x2\<bar> < 1 / 1000000")
  case True
  then show ?thesis by (simp add: liner_solve_np_def liner_solve_def)
next
  case False
  then have "x2 - x1 \<noteq> 0" by auto
  with False show ?thesis
    by (simp add: liner_solve_np_def liner_solve_def mult.commute)
qed

lemma impc_walk_np_Fin:
  "impc_walk_np samples (Fin target) i bid spend = impc_walk samples target i bid spend"
proof (induction samples target i bid spend rule: impc_walk.induct)
  case (1 samples target i bid spend)
  show ?case
  proof (cases "i < length samples \<and> snd (samples ! i) < target")
    case True
    have a: "impc_walk_np samples (Fin target) i bid spend
        = impc_walk_np samples (Fin target) (i + 1) (fst (samples ! i)) (snd (samples ! i))"
      using True by (subst impc_walk_np.simps) simp
    have b: "impc_walk samples target i bid spend
        = impc_walk samples target (i + 1) (fst (samples ! i)) (snd (samples ! i))"
      using True by (subst impc_walk.simps) simp
    show ?thesis unfolding a b using "1.IH" True by simp
  next
    case False
    have a: "impc_walk_np samples (Fin target) i bid spend = (i, bid, spend)"
      using False by (subst impc_walk_np.simps) auto
    have b: "impc_walk samples target i bid spend = (i, bid, spend)"
      using False by (subst impc_walk.simps) auto
    show ?thesis unfolding a b ..
  qed
qed

lemma impc_np_Fin: "impc_np bid2spend (Fin target) = Fin (impc bid2spend target)"
proof -
  define samples where
    "samples = increasing_subsequence (aggregate_near_sample (sort bid2spend) default_distance)"
  obtain i bid spend where w: "impc_walk samples target 0 0 0 = (i, bid, spend)"
    by (cases "impc_walk samples target 0 0 0") auto
  have np: "impc_np bid2spend (Fin target) =
      (if length samples = 0 then Fin 1
       else if i < length samples
            then liner_solve_np spend bid (snd (samples ! i)) (fst (samples ! i)) (Fin target)
            else liner_solve_np 0 0 (snd (last samples)) (fst (last samples)) (Fin target))"
    unfolding impc_np_def Let_def samples_def[symmetric] impc_walk_np_Fin w by simp
  have re: "impc bid2spend target =
      (if length samples = 0 then 1
       else if i < length samples
            then liner_solve spend bid (snd (samples ! i)) (fst (samples ! i)) target
            else liner_solve 0 0 (snd (last samples)) (fst (last samples)) target)"
    unfolding impc_def Let_def samples_def[symmetric] w by simp
  show ?thesis unfolding np re liner_solve_np_Fin by simp
qed

lemma calc_roi_bid_np_Fin:
  "calc_roi_bid_np self (Fin target) = Fin (calc_roi_bid self target)"
  unfolding calc_roi_bid_np_def calc_roi_bid_def Let_def impc_np_Fin by simp

text \<open>
  An \<open>SPBBidder\<close> with a positive optimal budget and \<open>rounds_per_iter = 0\<close> (which no
  constructor returns), charged 5 in round 2: the target is inf, the solver returns
  inf, the clamp gives 1.1 and the call finishes like any other. When the last bid of
  the history is 0 the solver multiplies 0 by inf, and \<open>roi_bid\<close> becomes nan.
\<close>

lemma SPBBidder_charge_inf_target:
  "SPBBidder_charge 5 2 1 1 (spb_example\<lparr>rounds_per_iter := 0, optimal_budget := Fin 5\<rparr>)
   = Returned (spb_example\<lparr>spending := 5, rounds_per_iter := 0,
        bid2spend_history := [(1, 5)], roi_bid := 11 / 10, optimal_budget := Fin 5\<rparr>)"
  by code_simp

lemma SPBBidder_charge_nan:
  "SPBBidder_charge 5 2 1 1
     (spb_example\<lparr>rounds_per_iter := 0, roi_bid := 0, optimal_budget := Fin 5\<rparr>)
   = NonFinite (spb_example\<lparr>spending := 5, rounds_per_iter := 0,
        bid2spend_history := [(0, 5)], roi_bid := 0, optimal_budget := Fin 5\<rparr>)"
  by code_simp

section \<open>Properties of the bidders\<close>

subsection \<open>The bid multiplier moves by at most one step\<close>

lemma calc_roi_bid_explore:
  "step_spending self < 1 / 1000000 \<Longrightarrow>
   calc_roi_bid self target = roi_bid self + bid_step self"
  by (simp add: calc_roi_bid_def)

lemma calc_roi_bid_clamped:
  "\<not> step_spending self < 1 / 1000000 \<Longrightarrow>
   calc_roi_bid self target =
     min (max (impc (bid2spend_history self) target) (roi_bid self - bid_step self))
         (roi_bid self + bid_step self)"
  by (simp add: calc_roi_bid_def)

lemma calc_roi_bid_within:
  "\<bar>calc_roi_bid self target - roi_bid self\<bar> \<le> \<bar>bid_step self\<bar>"
  unfolding calc_roi_bid_def Let_def by (simp split: if_splits) linarith

text \<open>
  The multiplier after a \<open>charge\<close>: recomputed at a step boundary, from the object
  with the price added and the sample of the step appended, and untouched otherwise
  (also when the call raises for \<open>rounds_per_step = 0\<close>).
\<close>

lemma IMPCBudgetBidder_charge_roi_bid:
  "roi_bid (state_of (IMPCBudgetBidder_charge price cur_round estimated_CTR val self)) =
     (if rounds_per_step self \<noteq> 0 \<and> cur_round mod rounds_per_step self = 0
      then calc_roi_bid
             (self\<lparr>spending := spending self + price,
                   step_spending := step_spending self + price,
                   bid2spend_history :=
                     bid2spend_history self @ [(roi_bid self, step_spending self + price)]\<rparr>)
             (target_step_spending self)
      else roi_bid self)"
  unfolding IMPCBudgetBidder_charge_def Let_def by simp

text \<open>
  In exact arithmetic the multiplier moves by at most the magnitude of \<open>bid_step\<close>,
  hence by at most \<open>bid_step\<close> for a step size that is not negative.
\<close>

lemma IMPCBudgetBidder_charge_roi_bid_step_exact:
  "\<bar>roi_bid (state_of (IMPCBudgetBidder_charge price cur_round estimated_CTR val self))
      - roi_bid self\<bar> \<le> \<bar>bid_step self\<bar> \<and>
   (0 \<le> bid_step self \<longrightarrow>
    \<bar>roi_bid (state_of (IMPCBudgetBidder_charge price cur_round estimated_CTR val self))
       - roi_bid self\<bar> \<le> bid_step self)"
proof -
  let ?s = "self\<lparr>spending := spending self + price,
                   step_spending := step_spending self + price,
                   bid2spend_history :=
                     bid2spend_history self @ [(roi_bid self, step_spending self + price)]\<rparr>"
  let ?after = "roi_bid (state_of (IMPCBudgetBidder_charge price cur_round estimated_CTR val self))"
  have "\<bar>calc_roi_bid ?s (target_step_spending self) - roi_bid ?s\<bar> \<le> \<bar>bid_step ?s\<bar>"
    by (rule calc_roi_bid_within)
  then have "\<bar>calc_roi_bid ?s (target_step_spending self) - roi_bid self\<bar> \<le> \<bar>bid_step self\<bar>"
    by simp
  then have main: "\<bar>?after - roi_bid self\<bar> \<le> \<bar>bid_step self\<bar>"
    unfolding IMPCBudgetBidder_charge_roi_bid by simp
  show ?thesis
  proof (intro conjI impI)
    show "\<bar>?after - roi_bid self\<bar> \<le> \<bar>bid_step self\<bar>" by (rule main)
  next
    assume "0 \<le> bid_step self"
    with main show "\<bar>?after - roi_bid self\<bar> \<le> bid_step self" by simp
  qed
qed

subsection \<open>The step of the bid multiplier in double precision\<close>

lemma rne_error: "\<bar>real_of_int (rne t) - t\<bar> \<le> 1 / 2"
proof -
  have "real_of_int \<lfloor>t\<rfloor> \<le> t" "t < real_of_int \<lfloor>t\<rfloor> + 1" by linarith+
  then show ?thesis unfolding rne_def Let_def by (auto split: if_splits)
qed

lemma expo_lower:
  assumes "x \<noteq> 0"
  shows "2 powi expo x \<le> \<bar>x\<bar>"
proof (cases "1 \<le> \<bar>x\<bar>")
  case True
  define n where "n = \<lfloor>\<bar>x\<bar>\<rfloor>"
  have n: "0 < n" using True by (simp add: n_def)
  have e: "expo x = bitlen n - 1" using True by (simp add: expo_def n_def)
  have nn: "0 \<le> bitlen n - 1" using n by (simp add: bitlen_alt_def)
  have "(2::int) ^ nat (bitlen n - 1) \<le> n" using bitlen_bounds[OF n] by simp
  then have "real_of_int (2 ^ nat (bitlen n - 1)) \<le> real_of_int n" by linarith
  then have "(2::real) ^ nat (bitlen n - 1) \<le> real_of_int n" by simp
  moreover have "real_of_int n \<le> \<bar>x\<bar>" by (simp add: n_def)
  moreover have "(2::real) powi (bitlen n - 1) = 2 ^ nat (bitlen n - 1)"
    using nn by (simp add: power_int_def)
  ultimately show ?thesis unfolding e by linarith
next
  case False
  define y where "y = 1 / \<bar>x\<bar>"
  have ax: "0 < \<bar>x\<bar>" using assms by simp
  have y1: "1 < y" using False ax by (simp add: y_def)
  define m where "m = \<lceil>y\<rceil> - 1"
  have m: "0 < m" using y1 by (simp add: m_def)
  have e: "expo x = - bitlen m" using False by (simp add: expo_def m_def y_def)
  have k: "0 \<le> bitlen m" by (rule bitlen_nonneg)
  have "m < 2 ^ nat (bitlen m)" using bitlen_bounds[OF m] by simp
  then have "\<lceil>y\<rceil> \<le> 2 ^ nat (bitlen m)" by (simp add: m_def)
  then have "real_of_int \<lceil>y\<rceil> \<le> real_of_int (2 ^ nat (bitlen m))" by linarith
  moreover have "y \<le> real_of_int \<lceil>y\<rceil>" by (rule le_of_int_ceiling)
  moreover have "real_of_int (2 ^ nat (bitlen m)) = 2 ^ nat (bitlen m)" by simp
  ultimately have "y \<le> 2 ^ nat (bitlen m)" by linarith
  then have "1 / 2 ^ nat (bitlen m) \<le> 1 / y" using y1 by (simp add: frac_le)
  moreover have "1 / y = \<bar>x\<bar>" by (simp add: y_def)
  moreover have "(2::real) powi (- bitlen m) = 1 / 2 ^ nat (bitlen m)"
    using k by (simp add: power_int_def field_simps)
  ultimately show ?thesis unfolding e by simp
qed

lemma expo_upper:
  assumes "x \<noteq> 0"
  shows "\<bar>x\<bar> < 2 powi (expo x + 1)"
proof (cases "1 \<le> \<bar>x\<bar>")
  case True
  define n where "n = \<lfloor>\<bar>x\<bar>\<rfloor>"
  have n: "0 < n" using True by (simp add: n_def)
  have e: "expo x = bitlen n - 1" using True by (simp add: expo_def n_def)
  have "n < 2 ^ nat (bitlen n)" using bitlen_bounds[OF n] by simp
  then have "n + 1 \<le> 2 ^ nat (bitlen n)" by simp
  then have "real_of_int (n + 1) \<le> real_of_int (2 ^ nat (bitlen n))" by linarith
  then have "real_of_int n + 1 \<le> 2 ^ nat (bitlen n)" by simp
  moreover have "\<bar>x\<bar> < real_of_int n + 1" unfolding n_def by linarith
  moreover have "(2::real) powi (bitlen n - 1 + 1) = 2 ^ nat (bitlen n)"
    using bitlen_nonneg[of n] by (simp add: power_int_def)
  ultimately show ?thesis unfolding e by linarith
next
  case False
  define y where "y = 1 / \<bar>x\<bar>"
  have ax: "0 < \<bar>x\<bar>" using assms by simp
  have y1: "1 < y" using False ax by (simp add: y_def)
  define m where "m = \<lceil>y\<rceil> - 1"
  have m: "0 < m" using y1 by (simp add: m_def)
  have e: "expo x = - bitlen m" using False by (simp add: expo_def m_def y_def)
  have k: "1 \<le> bitlen m" using m by (simp add: bitlen_alt_def)
  have "(2::int) ^ nat (bitlen m - 1) \<le> m" using bitlen_bounds[OF m] by simp
  then have "real_of_int (2 ^ nat (bitlen m - 1)) \<le> real_of_int m" by linarith
  moreover have "real_of_int m < y" unfolding m_def by simp linarith
  moreover have "real_of_int (2 ^ nat (bitlen m - 1)) = 2 ^ nat (bitlen m - 1)" by simp
  ultimately have "(2::real) ^ nat (bitlen m - 1) < y" by linarith
  then have "1 / y < 1 / 2 ^ nat (bitlen m - 1)" by (simp add: frac_less2)
  moreover have "1 / y = \<bar>x\<bar>" by (simp add: y_def)
  moreover have "(2::real) powi (- bitlen m + 1) = 1 / 2 ^ nat (bitlen m - 1)"
    using k by (simp add: power_int_def field_simps)
  ultimately show ?thesis unfolding e by simp
qed

lemma fl_error: "\<bar>fl x - x\<bar> \<le> \<bar>x\<bar> / 2 ^ 53"
proof (cases "x = 0")
  case True
  then show ?thesis by (simp add: fl_def)
next
  case False
  define q :: real where "q = 2 powi (expo x - 52)"
  have q: "0 < q" by (simp add: q_def)
  have "fl x - x = q * (real_of_int (rne (x / q)) - x / q)"
    using False q by (simp add: fl_def q_def[symmetric] algebra_simps)
  then have "\<bar>fl x - x\<bar> = q * \<bar>real_of_int (rne (x / q)) - x / q\<bar>"
    using q by (simp add: abs_mult)
  also have "\<dots> \<le> q * (1 / 2)"
    using rne_error[of "x / q"] q by (intro mult_left_mono) simp_all
  also have "q * (1 / 2) = 2 powi expo x / 2 ^ 53"
    by (simp add: q_def power_int_diff)
  also have "\<dots> \<le> \<bar>x\<bar> / 2 ^ 53"
    using expo_lower[OF False] by (simp add: divide_right_mono)
  finally show ?thesis .
qed

text \<open>
  The new multiplier is the rounded sum in the exploration branch and lies between the
  rounded difference and the rounded sum in the solver branch, whatever the solver
  returns.
\<close>

lemma calc_roi_bid_fl_within:
  assumes "0 \<le> bid_step self"
  shows "\<bar>calc_roi_bid_fl solver self target - roi_bid self\<bar>
           \<le> bid_step self + (\<bar>roi_bid self\<bar> + bid_step self) / 2 ^ 53"
proof -
  define r where "r = roi_bid self"
  define d where "d = bid_step self"
  define eps where "eps = (\<bar>r\<bar> + d) / 2 ^ 53"
  have d: "0 \<le> d" using assms by (simp add: d_def)
  have "\<bar>fl (r + d) - (r + d)\<bar> \<le> \<bar>r + d\<bar> / 2 ^ 53" by (rule fl_error)
  also have "\<dots> \<le> eps" unfolding eps_def using d by (intro divide_right_mono) auto
  finally have hi: "\<bar>fl (r + d) - (r + d)\<bar> \<le> eps" .
  have "\<bar>fl (r - d) - (r - d)\<bar> \<le> \<bar>r - d\<bar> / 2 ^ 53" by (rule fl_error)
  also have "\<dots> \<le> eps" unfolding eps_def using d by (intro divide_right_mono) auto
  finally have lo: "\<bar>fl (r - d) - (r - d)\<bar> \<le> eps" .
  have "\<bar>calc_roi_bid_fl solver self target - r\<bar> \<le> d + eps"
    unfolding calc_roi_bid_fl_def Let_def r_def[symmetric] d_def[symmetric]
    using hi lo d by (auto split: if_splits simp: min_def max_def)
  then show ?thesis by (simp add: eps_def r_def d_def)
qed

lemma IMPCBudgetBidder_charge_fl_roi_bid:
  "roi_bid (state_of (IMPCBudgetBidder_charge_fl solver price cur_round estimated_CTR val self)) =
     (if rounds_per_step self \<noteq> 0 \<and> cur_round mod rounds_per_step self = 0
      then calc_roi_bid_fl solver
             (self\<lparr>spending := fl (spending self + price),
                   step_spending := fl (step_spending self + price),
                   bid2spend_history :=
                     bid2spend_history self @ [(roi_bid self, fl (step_spending self + price))]\<rparr>)
             (target_step_spending self)
      else roi_bid self)"
  unfolding IMPCBudgetBidder_charge_fl_def Let_def by simp

text \<open>
  Claim C6, as amended. For every state of an \<open>IMPCBudgetBidder\<close> whose \<open>bid_step\<close> is
  not negative and every \<open>charge\<close> call, \<open>roi_bid\<close> after the call differs from
  \<open>roi_bid\<close> before the call by at most \<open>bid_step\<close> plus the rounding error of one
  double-precision sum or difference, which is at most
  \<open>(\<bar>roi_bid\<bar> + bid_step) / 2 ^ 53\<close>: the exploration branch sets the rounded
  \<open>roi_bid + bid_step\<close>, the solver branch clamps to the rounded \<open>roi_bid - bid_step\<close>
  and \<open>roi_bid + bid_step\<close>.
\<close>

theorem IMPCBudgetBidder_charge_fl_roi_bid_step:
  assumes "0 \<le> bid_step self"
  shows "\<bar>roi_bid (state_of (IMPCBudgetBidder_charge_fl solver price cur_round estimated_CTR val self))
      - roi_bid self\<bar> \<le> bid_step self + (\<bar>roi_bid self\<bar> + bid_step self) / 2 ^ 53"
proof -
  let ?s = "self\<lparr>spending := fl (spending self + price),
                   step_spending := fl (step_spending self + price),
                   bid2spend_history :=
                     bid2spend_history self @ [(roi_bid self, fl (step_spending self + price))]\<rparr>"
  have "0 \<le> bid_step ?s" using assms by simp
  from calc_roi_bid_fl_within [OF this, of solver "target_step_spending self"]
  have "\<bar>calc_roi_bid_fl solver ?s (target_step_spending self) - roi_bid self\<bar>
          \<le> bid_step self + (\<bar>roi_bid self\<bar> + bid_step self) / 2 ^ 53" by simp
  moreover have "0 \<le> bid_step self + (\<bar>roi_bid self\<bar> + bid_step self) / 2 ^ 53"
    using assms by simp
  ultimately show ?thesis unfolding IMPCBudgetBidder_charge_fl_roi_bid by simp
qed

text \<open>
  The example bidder with \<open>bid_step = 0.1\<close>, charged nothing in round 2: the
  exploration branch sets the double nearest to 1.1.
\<close>

theorem IMPCBudgetBidder_charge_fl_roi_bid_step_witness:
  "0 \<le> bid_step impc_example_fl \<and>
   roi_bid (state_of (IMPCBudgetBidder_charge_fl impc 0 2 1 1 impc_example_fl))
     = 2476979795053773 / 2251799813685248 \<and>
   \<bar>roi_bid (state_of (IMPCBudgetBidder_charge_fl impc 0 2 1 1 impc_example_fl))
      - roi_bid impc_example_fl\<bar>
     \<le> bid_step impc_example_fl
         + (\<bar>roi_bid impc_example_fl\<bar> + bid_step impc_example_fl) / 2 ^ 53"
proof -
  have h: "0 \<le> bid_step impc_example_fl" by code_simp
  have v: "roi_bid (state_of (IMPCBudgetBidder_charge_fl impc 0 2 1 1 impc_example_fl))
     = 2476979795053773 / 2251799813685248"
    by code_simp
  from h v IMPCBudgetBidder_charge_fl_roi_bid_step [OF h, of impc 0 2 1 1]
  show ?thesis by blast
qed

text \<open>
  Claim C6 as it is stated fails: for the same bidder and the same call, \<open>bid_step\<close> is
  the double 0.1, that is 3602879701896397 / 2 ^ 55, and \<open>roi_bid\<close> goes from 1 to the
  double nearest to 1.1, that is 2476979795053773 / 2 ^ 51, which is 3 / 2 ^ 55 more
  than \<open>bid_step\<close> away from 1.
\<close>

theorem IMPCBudgetBidder_charge_fl_exceeds_bid_step:
  "bid_step impc_example_fl = 3602879701896397 / 36028797018963968 \<and>
   roi_bid impc_example_fl = 1 \<and>
   roi_bid (state_of (IMPCBudgetBidder_charge_fl impc 0 2 1 1 impc_example_fl))
     = 2476979795053773 / 2251799813685248 \<and>
   \<not> \<bar>roi_bid (state_of (IMPCBudgetBidder_charge_fl impc 0 2 1 1 impc_example_fl))
        - roi_bid impc_example_fl\<bar> \<le> bid_step impc_example_fl"
proof -
  have 1: "bid_step impc_example_fl = 3602879701896397 / 36028797018963968"
    by code_simp
  have 2: "roi_bid impc_example_fl = 1"
    by (simp add: impc_example_fl_def impc_example_def)
  have 3: "roi_bid (state_of (IMPCBudgetBidder_charge_fl impc 0 2 1 1 impc_example_fl))
     = 2476979795053773 / 2251799813685248"
    by code_simp
  have 4: "\<not> \<bar>roi_bid (state_of (IMPCBudgetBidder_charge_fl impc 0 2 1 1 impc_example_fl))
        - roi_bid impc_example_fl\<bar> \<le> bid_step impc_example_fl"
    unfolding 1 2 3 by simp
  from 1 2 3 4 show ?thesis by blast
qed

subsection \<open>The gate on the budget\<close>

text \<open>
  Claim C7. \<open>bid\<close> of an \<open>IMPCBudgetBidder\<close> (inherited by \<open>BidCapBidder\<close> and
  \<open>SPBBidder\<close>, whose objects extend the record) and of an \<open>MPCBidder\<close> returns
  \<open>value * estimated_CTR * roi_bid\<close> when the spending is below the budget, and 0
  otherwise, that is whenever the spending has reached the budget.
\<close>

theorem bid_gate:
  "IMPCBudgetBidder_bid self val context estimated_CTR =
     (if spending self < budget self then val * estimated_CTR * roi_bid self else 0) \<and>
   MPCBidder_bid pid val context' estimated_CTR =
     (if spending pid < budget pid then val * estimated_CTR * mpc_roi_bid pid else 0)"
  by (simp add: IMPCBudgetBidder_bid_def MPCBidder_bid_def)

subsection \<open>A charge is never capped or rejected\<close>

lemma IMPCBudgetBidder_charge_spending:
  "spending (state_of (IMPCBudgetBidder_charge price cur_round estimated_CTR val self))
     = spending self + price \<and>
   budget (state_of (IMPCBudgetBidder_charge price cur_round estimated_CTR val self))
     = budget self"
  unfolding IMPCBudgetBidder_charge_def Let_def by simp

lemma BidCapBidder_charge_spending:
  "spending (state_of (BidCapBidder_charge price cur_round estimated_CTR val self))
     = spending self + price \<and>
   budget (state_of (BidCapBidder_charge price cur_round estimated_CTR val self))
     = budget self"
  using IMPCBudgetBidder_charge_spending [of price cur_round estimated_CTR val self]
  unfolding BidCapBidder_charge_def
  by (cases "IMPCBudgetBidder_charge price cur_round estimated_CTR val self") simp_all

lemma SPBBidder_charge_spending:
  "spending (state_of (SPBBidder_charge price cur_round estimated_CTR val self))
     = spending self + price \<and>
   budget (state_of (SPBBidder_charge price cur_round estimated_CTR val self))
     = budget self"
  unfolding SPBBidder_charge_def Let_def by (simp split: npfloat.splits)

lemma MPCBidder_charge_spending:
  "0 < price \<Longrightarrow>
   spending (state_of (MPCBidder_charge price cur_round estimated_CTR val self))
     = spending self + price \<and>
   budget (state_of (MPCBidder_charge price cur_round estimated_CTR val self))
     = budget self"
  unfolding MPCBidder_charge_def Let_def by simp

text \<open>
  Claim C10. For each bidder with a budget (\<open>BudgetRistrictedBidder\<close> and its truthful
  subclass, \<open>IMPCBudgetBidder\<close>, \<open>BidCapBidder\<close>, \<open>SPBBidder\<close>, \<open>MPCBidder\<close>), a
  \<open>charge\<close> with a positive price adds the price to \<open>spending\<close> whatever the spending
  and the budget are, and leaves the budget as it is: a bidder whose spending has
  reached its budget spends strictly more than its budget after the charge. No
  \<open>charge\<close> compares the two; only \<open>bid\<close> does.
\<close>

theorem charge_adds_price:
  assumes "0 < price"
  shows
    "spending (BudgetRistrictedBidder_charge price cur_round estimated_CTR val b)
       = spending b + price \<and>
     budget (BudgetRistrictedBidder_charge price cur_round estimated_CTR val b) = budget b \<and>
     spending (state_of (IMPCBudgetBidder_charge price cur_round estimated_CTR val i))
       = spending i + price \<and>
     budget (state_of (IMPCBudgetBidder_charge price cur_round estimated_CTR val i))
       = budget i \<and>
     spending (state_of (BidCapBidder_charge price cur_round estimated_CTR val c))
       = spending c + price \<and>
     budget (state_of (BidCapBidder_charge price cur_round estimated_CTR val c))
       = budget c \<and>
     spending (state_of (SPBBidder_charge price cur_round estimated_CTR val s))
       = spending s + price \<and>
     budget (state_of (SPBBidder_charge price cur_round estimated_CTR val s))
       = budget s \<and>
     spending (state_of (MPCBidder_charge price cur_round estimated_CTR val m))
       = spending m + price \<and>
     budget (state_of (MPCBidder_charge price cur_round estimated_CTR val m))
       = budget m \<and>
     (budget i \<le> spending i \<longrightarrow>
        budget (state_of (IMPCBudgetBidder_charge price cur_round estimated_CTR val i))
          < spending (state_of (IMPCBudgetBidder_charge price cur_round estimated_CTR val i)))"
proof -
  have 1: "spending (BudgetRistrictedBidder_charge price cur_round estimated_CTR val b)
       = spending b + price \<and>
     budget (BudgetRistrictedBidder_charge price cur_round estimated_CTR val b) = budget b"
    by (simp add: BudgetRistrictedBidder_charge_def)
  note 2 = IMPCBudgetBidder_charge_spending [of price cur_round estimated_CTR val i]
  note 3 = BidCapBidder_charge_spending [of price cur_round estimated_CTR val c]
  note 4 = SPBBidder_charge_spending [of price cur_round estimated_CTR val s]
  note 5 = MPCBidder_charge_spending [OF assms, of cur_round estimated_CTR val m]
  have 6: "budget i \<le> spending i \<longrightarrow>
        budget (state_of (IMPCBudgetBidder_charge price cur_round estimated_CTR val i))
          < spending (state_of (IMPCBudgetBidder_charge price cur_round estimated_CTR val i))"
    using 2 assms by simp
  from 1 2 3 4 5 6 show ?thesis by blast
qed

text \<open>
  The example bidder with its budget of 10 spent, charged 1 in round 1: it has spent 11.
\<close>

theorem charge_adds_price_witness:
  "(0::real) < 1 \<and>
   spending (state_of (IMPCBudgetBidder_charge 1 1 1 1 (impc_example\<lparr>spending := 10\<rparr>))) = 11 \<and>
   budget (state_of (IMPCBudgetBidder_charge 1 1 1 1 (impc_example\<lparr>spending := 10\<rparr>))) = 10 \<and>
   spending (state_of (SPBBidder_charge 1 1 1 1 (spb_example\<lparr>spending := 10\<rparr>))) = 11 \<and>
   spending (state_of (MPCBidder_charge 1 1 1 1
      ((MPCBidder_init 10 10 2 (1 / 10) 5 1 0 0 0 2)\<lparr>spending := 10\<rparr>))) = 11 \<and>
   IMPCBudgetBidder_bid (impc_example\<lparr>spending := 10\<rparr>) 3 () (1 / 2) = 0"
proof -
  have h: "(0::real) < 1" by simp
  have e: "spending (impc_example\<lparr>spending := 10\<rparr>) = 10"
    "budget (impc_example\<lparr>spending := 10\<rparr>) = 10"
    "spending (spb_example\<lparr>spending := 10\<rparr>) = 10"
    "spending ((MPCBidder_init 10 10 2 (1 / 10) 5 1 0 0 0 2)\<lparr>spending := 10\<rparr>) = 10"
    by (simp_all add: impc_example_def spb_example_def)
  note t = charge_adds_price [OF h, of 1 1 1 "\<lparr>budget = 10, spending = 10\<rparr>"
      "impc_example\<lparr>spending := 10\<rparr>" "impc_example\<lparr>spending := 10\<rparr>"
      "spb_example\<lparr>spending := 10\<rparr>"
      "(MPCBidder_init 10 10 2 (1 / 10) 5 1 0 0 0 2)\<lparr>spending := 10\<rparr>"]
  have 1: "spending (state_of (IMPCBudgetBidder_charge 1 1 1 1 (impc_example\<lparr>spending := 10\<rparr>))) = 11"
    using t e(1) by simp
  have 2: "budget (state_of (IMPCBudgetBidder_charge 1 1 1 1 (impc_example\<lparr>spending := 10\<rparr>))) = 10"
    using t e(2) by simp
  have 3: "spending (state_of (SPBBidder_charge 1 1 1 1 (spb_example\<lparr>spending := 10\<rparr>))) = 11"
    using t e(3) by simp
  have 4: "spending (state_of (MPCBidder_charge 1 1 1 1
      ((MPCBidder_init 10 10 2 (1 / 10) 5 1 0 0 0 2)\<lparr>spending := 10\<rparr>))) = 11"
    using t e(4) by simp
  have 5: "IMPCBudgetBidder_bid (impc_example\<lparr>spending := 10\<rparr>) 3 () (1 / 2) = 0"
    using e by (simp add: IMPCBudgetBidder_bid_def)
  from h 1 2 3 4 5 show ?thesis by blast
qed

subsection \<open>The cap of \<open>BidCapBidder\<close>\<close>

lemma BidCapBidder_charge_capped:
  "BidCapBidder_charge price cur_round estimated_CTR val self = Returned self' \<Longrightarrow>
   roi_bid self' \<le> 1"
  unfolding BidCapBidder_charge_def by (auto split: outcome.splits)

text \<open>
  When the inherited \<open>charge\<close> raises, the cap is skipped, but the multiplier has not
  been touched either.
\<close>

lemma BidCapBidder_charge_keeps_cap:
  assumes "roi_bid self \<le> 1"
  shows "roi_bid (state_of (BidCapBidder_charge price cur_round estimated_CTR val self)) \<le> 1"
proof (cases "IMPCBudgetBidder_charge price cur_round estimated_CTR val self")
  case (Returned s)
  then show ?thesis by (simp add: BidCapBidder_charge_def)
next
  case (Raised e s)
  then have "roi_bid s = roi_bid self"
    unfolding IMPCBudgetBidder_charge_def Let_def by (auto split: if_splits)
  with Raised assms show ?thesis by (simp add: BidCapBidder_charge_def)
next
  case (NonFinite s)
  then show ?thesis unfolding IMPCBudgetBidder_charge_def Let_def by (auto split: if_splits)
qed

lemma BidCapBidder_call_keeps_cap:
  "roi_bid self \<le> 1 \<Longrightarrow> roi_bid (BidCapBidder_call c self) \<le> 1"
  by (cases c)
    (simp_all add: BidCapBidder_charge_keeps_cap IMPCBudgetBidder_update_def
      IMPCBudgetBidder_reset_def)

lemma BidCapBidder_run_keeps_cap:
  "roi_bid self \<le> 1 \<Longrightarrow> roi_bid (BidCapBidder_run calls self) \<le> 1"
  by (induction calls rule: rev_induct)
    (simp_all add: BidCapBidder_run_def BidCapBidder_call_keeps_cap)

text \<open>
  Claim C9. A \<open>BidCapBidder\<close> (constructed by the inherited constructor) has
  \<open>roi_bid \<le> 1\<close> after its construction and after any sequence of calls, the cap
  being applied at the end of every \<open>charge\<close>; so for a value and an estimated
  click-through rate whose product is not negative, the bid it submits is at most
  \<open>value * estimated_CTR\<close>.
\<close>

theorem BidCapBidder_roi_bid_capped:
  assumes "IMPCBudgetBidder_init drawn rpi rps step mem = Inr fresh"
    and "0 \<le> val * estimated_CTR"
  shows "roi_bid fresh \<le> 1 \<and>
         roi_bid (BidCapBidder_run calls fresh) \<le> 1 \<and>
         IMPCBudgetBidder_bid (BidCapBidder_run calls fresh) val context estimated_CTR
           \<le> val * estimated_CTR"
proof -
  from assms(1) have f: "roi_bid fresh = 1"
    by (auto simp add: IMPCBudgetBidder_init_def split: if_splits)
  then have r: "roi_bid (BidCapBidder_run calls fresh) \<le> 1"
    by (simp add: BidCapBidder_run_keeps_cap)
  have "val * estimated_CTR * roi_bid (BidCapBidder_run calls fresh) \<le> val * estimated_CTR * 1"
    using r assms(2) by (rule mult_left_mono)
  with f r assms(2) show ?thesis by (simp add: IMPCBudgetBidder_bid_def)
qed

text \<open>
  The fresh example bidder charged nothing in round 2: the exploration branch asks for
  1.1 and the cap brings it back to 1.
\<close>

theorem BidCapBidder_roi_bid_capped_witness:
  "IMPCBudgetBidder_init 10 10 2 (1 / 10) 5 = Inr impc_example \<and>
   (0::real) \<le> 3 * (1 / 2) \<and>
   roi_bid (state_of (IMPCBudgetBidder_charge 0 2 1 1 impc_example)) = 11 / 10 \<and>
   roi_bid (BidCapBidder_run [Charge 0 2 1 1 :: unit call] impc_example) \<le> 1 \<and>
   IMPCBudgetBidder_bid (BidCapBidder_run [Charge 0 2 1 1 :: unit call] impc_example)
       3 () (1 / 2) \<le> 3 * (1 / 2)"
proof -
  have h1: "IMPCBudgetBidder_init 10 10 2 (1 / 10) 5 = Inr impc_example"
    by (simp add: IMPCBudgetBidder_init_def impc_example_def)
  have h2: "(0::real) \<le> 3 * (1 / 2)" by simp
  have v: "roi_bid (state_of (IMPCBudgetBidder_charge 0 2 1 1 impc_example)) = 11 / 10"
    by code_simp
  from BidCapBidder_roi_bid_capped [OF h1 h2, of "[Charge 0 2 1 1 :: unit call]" "()"] h1 h2 v
  show ?thesis by blast
qed

subsection \<open>The optimal budget of \<open>SPBBidder\<close>\<close>

lemma np_minimum_Fin_positive:
  "np_positive (np_minimum x (Fin y)) \<Longrightarrow>
   \<exists>z. np_minimum x (Fin y) = Fin z \<and> 0 < z \<and> z \<le> y"
  by (cases x) auto

lemma SPBBidder_update_fit_optimal_budget:
  "((length (spend_history (SPBBidder_update_fit fitf s)) \<le> 1 \<or>
     fitf (spend_history (SPBBidder_update_fit fitf s))
          (value_history (SPBBidder_update_fit fitf s)) = None)
      \<longrightarrow> optimal_budget (SPBBidder_update_fit fitf s) = Fin (- 1)) \<and>
   (\<forall>a b. length (spend_history (SPBBidder_update_fit fitf s)) > 1 \<and>
      fitf (spend_history (SPBBidder_update_fit fitf s))
           (value_history (SPBBidder_update_fit fitf s)) = Some (a, b)
      \<longrightarrow> optimal_budget (SPBBidder_update_fit fitf s)
            = np_minimum (opt_spend a b) (Fin (budget (SPBBidder_update_fit fitf s)))) \<and>
   (np_positive (optimal_budget (SPBBidder_update_fit fitf s)) \<longrightarrow>
      (\<exists>x. optimal_budget (SPBBidder_update_fit fitf s) = Fin x \<and> 0 < x \<and>
           x \<le> budget (SPBBidder_update_fit fitf s)))"
proof (cases "length (spend_history s) > 1")
  case False
  then show ?thesis by (simp add: SPBBidder_update_fit_def)
next
  case True
  show ?thesis
  proof (cases "fitf (spend_history s) (value_history s)")
    case None
    with True show ?thesis by (simp add: fit_model_def SPBBidder_update_fit_def)
  next
    case (Some ab)
    obtain a b where ab: "ab = (a, b)" by (cases ab)
    show ?thesis
      using True Some ab np_minimum_Fin_positive [of "opt_spend a b" "budget s"]
      by (simp add: fit_model_def SPBBidder_update_fit_def)
  qed
qed

text \<open>
  Claim C8. After an \<open>SPBBidder.update\<close> that returns, \<open>optimal_budget\<close> is -1 when
  the spend history has fewer than 2 points or the fit fails, and
  \<open>min(opt_spend(a, b), budget)\<close> for the fitted \<open>a\<close>, \<open>b\<close> otherwise (the histories
  being those after the update, which are the ones the fit is given); and whenever it
  is positive it is a finite number that does not exceed the budget.
\<close>

theorem SPBBidder_update_optimal_budget:
  assumes "SPBBidder_update fitf contexts prices sum_values won_mask self = Returned self'"
  shows
    "((length (spend_history self') \<le> 1 \<or>
       fitf (spend_history self') (value_history self') = None)
        \<longrightarrow> optimal_budget self' = Fin (- 1)) \<and>
     (\<forall>a b. length (spend_history self') > 1 \<and>
        fitf (spend_history self') (value_history self') = Some (a, b)
        \<longrightarrow> optimal_budget self' = np_minimum (opt_spend a b) (Fin (budget self'))) \<and>
     (np_positive (optimal_budget self') \<longrightarrow>
        (\<exists>x. optimal_budget self' = Fin x \<and> 0 < x \<and> x \<le> budget self'))"
proof -
  from assms have "\<exists>s. self' = SPBBidder_update_fit fitf s"
    unfolding SPBBidder_update_def Let_def
    by (auto split: option.splits sum.splits)
  then obtain s where "self' = SPBBidder_update_fit fitf s" ..
  then show ?thesis using SPBBidder_update_fit_optimal_budget [of fitf s] by simp
qed

text \<open>
  A bidder with one iteration in its histories, updated after an iteration that spent
  4 on the round it won; the fit returns \<open>a = 1\<close>, \<open>b = 1/2\<close>, for which
  \<open>opt_spend\<close> is 1, below the budget of 10.
\<close>

theorem SPBBidder_update_optimal_budget_witness:
  "SPBBidder_update (\<lambda>spend val. Some (1, 1 / 2)) (Some ()) [4, 6] 3 [True, False]
     (spb_example\<lparr>spend_history := [3], value_history := [2]\<rparr>)
   = Returned (state_of
       (SPBBidder_update (\<lambda>spend val. Some (1, 1 / 2)) (Some ()) [4, 6] 3 [True, False]
          (spb_example\<lparr>spend_history := [3], value_history := [2]\<rparr>))) \<and>
   optimal_budget (state_of
       (SPBBidder_update (\<lambda>spend val. Some (1, 1 / 2)) (Some ()) [4, 6] 3 [True, False]
          (spb_example\<lparr>spend_history := [3], value_history := [2]\<rparr>))) = Fin 1 \<and>
   (\<exists>x. optimal_budget (state_of
       (SPBBidder_update (\<lambda>spend val. Some (1, 1 / 2)) (Some ()) [4, 6] 3 [True, False]
          (spb_example\<lparr>spend_history := [3], value_history := [2]\<rparr>))) = Fin x \<and>
       0 < x \<and> x \<le> 10)"
proof -
  let ?u = "SPBBidder_update (\<lambda>spend val. Some (1, 1 / 2)) (Some ()) [4, 6] 3 [True, False]
     (spb_example\<lparr>spend_history := [3], value_history := [2]\<rparr>)"
  have h: "?u = Returned (state_of ?u)"
    by (simp add: SPBBidder_update_def masked_def Let_def)
  have v: "optimal_budget (state_of ?u) = Fin 1"
    by (simp add: SPBBidder_update_def masked_def Let_def SPBBidder_update_fit_def
        py_slice_from_def fit_model_def opt_spend_def spb_example_def)
  have b: "budget (state_of ?u) = 10"
    by (simp add: SPBBidder_update_def masked_def Let_def SPBBidder_update_fit_def
        py_slice_from_def fit_model_def opt_spend_def spb_example_def)
  from SPBBidder_update_optimal_budget [OF h] v b
  have "\<exists>x. optimal_budget (state_of ?u) = Fin x \<and> 0 < x \<and> x \<le> 10" by simp
  with h v show ?thesis by blast
qed

text \<open>
  The bound is an invariant of the object: it holds after the construction and after
  every call, also after an \<open>update\<close> that raises and changes nothing.
\<close>

lemma SPBBidder_charge_optimal_budget:
  "optimal_budget (state_of (SPBBidder_charge price cur_round estimated_CTR val s))
     = optimal_budget s \<and>
   budget (state_of (SPBBidder_charge price cur_round estimated_CTR val s)) = budget s"
  unfolding SPBBidder_charge_def Let_def by (simp split: npfloat.splits)

lemma SPBBidder_update_respects:
  assumes "budget_respected s"
  shows "budget_respected (state_of (SPBBidder_update fitf contexts prices sum_values won_mask s))"
proof (cases "SPBBidder_update fitf contexts prices sum_values won_mask s")
  case (Returned s')
  then have "\<exists>t. s' = SPBBidder_update_fit fitf t"
    unfolding SPBBidder_update_def Let_def by (auto split: option.splits sum.splits)
  then obtain t where "s' = SPBBidder_update_fit fitf t" ..
  with Returned show ?thesis
    using SPBBidder_update_fit_optimal_budget [of fitf t] by (simp add: budget_respected_def)
next
  case (Raised e s')
  then have "s' = s"
    unfolding SPBBidder_update_def Let_def by (auto split: option.splits sum.splits)
  with Raised assms show ?thesis by simp
next
  case (NonFinite s')
  then show ?thesis
    unfolding SPBBidder_update_def Let_def by (auto split: option.splits sum.splits)
qed

lemma SPBBidder_call_respects:
  "budget_respected s \<Longrightarrow> budget_respected (SPBBidder_call fitf c s)"
proof (cases c)
  case (Charge p r e v)
  assume "budget_respected s"
  then show ?thesis using Charge SPBBidder_charge_optimal_budget [of p r e v s]
    by (simp add: budget_respected_def)
next
  case (Update c p sv w)
  assume "budget_respected s"
  then show ?thesis using Update by (simp add: SPBBidder_update_respects)
next
  case Reset
  then show ?thesis
    by (simp add: budget_respected_def SPBBidder_reset_def IMPCBudgetBidder_reset_def Let_def)
qed

lemma SPBBidder_run_respects:
  assumes "SPBBidder_init drawn rpi rps step mem spb_mem explore_max = Inr fresh"
  shows "budget_respected (SPBBidder_run fitf calls fresh)"
proof (induction calls rule: rev_induct)
  case Nil
  from assms show ?case
    by (auto simp add: SPBBidder_run_def SPBBidder_init_def budget_respected_def split: if_splits)
next
  case (snoc c calls)
  then show ?case by (simp add: SPBBidder_run_def SPBBidder_call_respects)
qed

subsection \<open>Reset\<close>

text \<open>No call assigns the attributes of the configuration.\<close>

lemma same_config_refl: "same_config s s"
  by (simp add: same_config_def)

lemma same_config_trans: "same_config s t \<Longrightarrow> same_config t u \<Longrightarrow> same_config s u"
  by (simp add: same_config_def)

lemma same_spb_config_trans:
  "same_spb_config s t \<Longrightarrow> same_spb_config t u \<Longrightarrow> same_spb_config s u"
  by (simp add: same_spb_config_def same_config_def)

lemma IMPCBudgetBidder_charge_config:
  "same_config (state_of (IMPCBudgetBidder_charge price cur_round estimated_CTR val s)) s"
  unfolding IMPCBudgetBidder_charge_def Let_def same_config_def by simp

lemma BidCapBidder_charge_config:
  "same_config (state_of (BidCapBidder_charge price cur_round estimated_CTR val s)) s"
  using IMPCBudgetBidder_charge_config [of price cur_round estimated_CTR val s]
  unfolding BidCapBidder_charge_def same_config_def
  by (cases "IMPCBudgetBidder_charge price cur_round estimated_CTR val s") simp_all

lemma SPBBidder_charge_config:
  "same_spb_config (state_of (SPBBidder_charge price cur_round estimated_CTR val s)) s"
  unfolding SPBBidder_charge_def Let_def same_spb_config_def same_config_def
  by (simp split: npfloat.splits)

lemma SPBBidder_update_config:
  "same_spb_config
     (state_of (SPBBidder_update fitf contexts prices sum_values won_mask s)) s"
  unfolding SPBBidder_update_def SPBBidder_update_fit_def Let_def same_spb_config_def
    same_config_def
  by (simp split: option.splits sum.splits prod.splits)

lemma IMPCBudgetBidder_call_config: "same_config (IMPCBudgetBidder_call c s) s"
  by (cases c)
    (simp_all add: IMPCBudgetBidder_charge_config,
      simp_all add: same_config_def IMPCBudgetBidder_update_def IMPCBudgetBidder_reset_def)

lemma BidCapBidder_call_config: "same_config (BidCapBidder_call c s) s"
  by (cases c)
    (simp_all add: BidCapBidder_charge_config,
      simp_all add: same_config_def IMPCBudgetBidder_update_def IMPCBudgetBidder_reset_def)

lemma SPBBidder_call_config: "same_spb_config (SPBBidder_call fitf c s) s"
  by (cases c)
    (simp_all add: SPBBidder_charge_config SPBBidder_update_config,
      simp_all add: same_spb_config_def same_config_def SPBBidder_reset_def
        IMPCBudgetBidder_reset_def)

lemma IMPCBudgetBidder_run_config: "same_config (IMPCBudgetBidder_run calls s) s"
proof (induction calls rule: rev_induct)
  case Nil
  show ?case by (simp add: IMPCBudgetBidder_run_def same_config_refl)
next
  case (snoc c calls)
  have "same_config (IMPCBudgetBidder_call c (IMPCBudgetBidder_run calls s))
          (IMPCBudgetBidder_run calls s)"
    by (rule IMPCBudgetBidder_call_config)
  from same_config_trans [OF this snoc] show ?case by (simp add: IMPCBudgetBidder_run_def)
qed

lemma BidCapBidder_run_config: "same_config (BidCapBidder_run calls s) s"
proof (induction calls rule: rev_induct)
  case Nil
  show ?case by (simp add: BidCapBidder_run_def same_config_refl)
next
  case (snoc c calls)
  have "same_config (BidCapBidder_call c (BidCapBidder_run calls s))
          (BidCapBidder_run calls s)"
    by (rule BidCapBidder_call_config)
  from same_config_trans [OF this snoc] show ?case by (simp add: BidCapBidder_run_def)
qed

lemma SPBBidder_run_config: "same_spb_config (SPBBidder_run fitf calls s) s"
proof (induction calls rule: rev_induct)
  case Nil
  show ?case by (simp add: SPBBidder_run_def same_spb_config_def same_config_refl)
next
  case (snoc c calls)
  have "same_spb_config (SPBBidder_call fitf c (SPBBidder_run fitf calls s))
          (SPBBidder_run fitf calls s)"
    by (rule SPBBidder_call_config)
  from same_spb_config_trans [OF this snoc] show ?case by (simp add: SPBBidder_run_def)
qed

text \<open>
  A bidder with the configuration of a fresh one and an empty step counter is, once
  reset, the fresh one.
\<close>

lemma IMPCBudgetBidder_reset_fresh:
  assumes "IMPCBudgetBidder_init drawn rpi rps step mem = Inr fresh"
    and "same_config s fresh" and "step_spending s = 0"
  shows "IMPCBudgetBidder_reset s = fresh"
proof -
  from assms(1) have f: "fresh = \<lparr>budget = drawn, spending = 0,
                rounds_per_step = rps, rounds_per_iter = rpi,
                target_step_spending = drawn * real_of_int rps / real_of_int rpi,
                bid2spend_history = [], bid_step = step, roi_bid = 1,
                step_spending = 0, memory = mem\<rparr>"
    by (simp add: IMPCBudgetBidder_init_def split: if_splits)
  show ?thesis
    using assms(2,3) unfolding f same_config_def IMPCBudgetBidder_reset_def
    by (intro impc_bidder.equality) simp_all
qed

lemma SPBBidder_reset_fresh:
  assumes "SPBBidder_init drawn rpi rps step mem spb_mem explore_max = Inr fresh"
    and "same_spb_config s fresh" and "step_spending s = 0"
  shows "SPBBidder_reset s = fresh"
proof -
  from assms(1) have f: "fresh = \<lparr>budget = drawn, spending = 0,
                rounds_per_step = rps, rounds_per_iter = rpi,
                target_step_spending = drawn * real_of_int rps / real_of_int rpi,
                bid2spend_history = [], bid_step = step, roi_bid = 1,
                step_spending = 0, memory = mem,
                spb_memory = spb_mem, explore_bid_max = explore_max,
                optimal_budget = Fin (- 1), spend_history = [], value_history = []\<rparr>"
    by (simp add: SPBBidder_init_def split: if_splits)
  show ?thesis
    using assms(2,3)
    unfolding f same_spb_config_def same_config_def SPBBidder_reset_def
      IMPCBudgetBidder_reset_def Let_def
    by (intro spb_bidder.equality) simp_all
qed

text \<open>
  Claim C2, as amended. \<open>MPCBidder\<close> has no \<open>reset\<close>. For an \<open>IMPCBudgetBidder\<close>, a
  \<open>BidCapBidder\<close> and an \<open>SPBBidder\<close>, \<open>reset\<close> sets \<open>roi_bid\<close> to 1, empties the
  bid/spend history and zeroes \<open>spending\<close> (for an \<open>SPBBidder\<close> it also sets
  \<open>optimal_budget\<close> to -1 and empties the spend and value histories); and a bidder
  that was constructed, went through any sequence of calls and is reset while its
  \<open>step_spending\<close> is 0 is again the object the constructor returned, so that
  everything it does from then on is what a freshly constructed bidder with the same
  budget draw does.
\<close>

theorem reset_restores_fresh:
  "roi_bid (IMPCBudgetBidder_reset self) = 1 \<and>
   bid2spend_history (IMPCBudgetBidder_reset self) = [] \<and>
   spending (IMPCBudgetBidder_reset self) = 0 \<and>
   roi_bid (SPBBidder_reset spb) = 1 \<and>
   bid2spend_history (SPBBidder_reset spb) = [] \<and>
   spending (SPBBidder_reset spb) = 0 \<and>
   optimal_budget (SPBBidder_reset spb) = Fin (- 1) \<and>
   spend_history (SPBBidder_reset spb) = [] \<and>
   value_history (SPBBidder_reset spb) = [] \<and>
   (IMPCBudgetBidder_init drawn rpi rps step mem = Inr fresh \<and>
    step_spending (IMPCBudgetBidder_run calls fresh) = 0
    \<longrightarrow> IMPCBudgetBidder_reset (IMPCBudgetBidder_run calls fresh) = fresh) \<and>
   (IMPCBudgetBidder_init drawn rpi rps step mem = Inr fresh \<and>
    step_spending (BidCapBidder_run calls fresh) = 0
    \<longrightarrow> IMPCBudgetBidder_reset (BidCapBidder_run calls fresh) = fresh) \<and>
   (SPBBidder_init drawn rpi rps step mem spb_mem explore_max = Inr sfresh \<and>
    step_spending (SPBBidder_run fitf calls sfresh) = 0
    \<longrightarrow> SPBBidder_reset (SPBBidder_run fitf calls sfresh) = sfresh)"
proof -
  have fields: "roi_bid (IMPCBudgetBidder_reset self) = 1 \<and>
   bid2spend_history (IMPCBudgetBidder_reset self) = [] \<and>
   spending (IMPCBudgetBidder_reset self) = 0"
    by (simp add: IMPCBudgetBidder_reset_def)
  have spb_fields: "roi_bid (SPBBidder_reset spb) = 1 \<and>
   bid2spend_history (SPBBidder_reset spb) = [] \<and>
   spending (SPBBidder_reset spb) = 0 \<and>
   optimal_budget (SPBBidder_reset spb) = Fin (- 1) \<and>
   spend_history (SPBBidder_reset spb) = [] \<and>
   value_history (SPBBidder_reset spb) = []"
    by (simp add: SPBBidder_reset_def IMPCBudgetBidder_reset_def Let_def)
  have impc: "IMPCBudgetBidder_init drawn rpi rps step mem = Inr fresh \<and>
    step_spending (IMPCBudgetBidder_run calls fresh) = 0
    \<longrightarrow> IMPCBudgetBidder_reset (IMPCBudgetBidder_run calls fresh) = fresh"
    using IMPCBudgetBidder_reset_fresh [OF _ IMPCBudgetBidder_run_config] by blast
  have cap: "IMPCBudgetBidder_init drawn rpi rps step mem = Inr fresh \<and>
    step_spending (BidCapBidder_run calls fresh) = 0
    \<longrightarrow> IMPCBudgetBidder_reset (BidCapBidder_run calls fresh) = fresh"
    using IMPCBudgetBidder_reset_fresh [OF _ BidCapBidder_run_config] by blast
  have spb: "SPBBidder_init drawn rpi rps step mem spb_mem explore_max = Inr sfresh \<and>
    step_spending (SPBBidder_run fitf calls sfresh) = 0
    \<longrightarrow> SPBBidder_reset (SPBBidder_run fitf calls sfresh) = sfresh"
    using SPBBidder_reset_fresh [OF _ SPBBidder_run_config] by blast
  from fields spb_fields impc cap spb show ?thesis by blast
qed

text \<open>
  The example bidders, charged 5 in round 2 (a step boundary, which empties the step
  counter) and then reset.
\<close>

theorem reset_restores_fresh_witness:
  "IMPCBudgetBidder_init 10 10 2 (1 / 10) 5 = Inr impc_example \<and>
   step_spending (IMPCBudgetBidder_run [Charge 5 2 1 1 :: unit call] impc_example) = 0 \<and>
   IMPCBudgetBidder_reset (IMPCBudgetBidder_run [Charge 5 2 1 1 :: unit call] impc_example)
     = impc_example \<and>
   step_spending (BidCapBidder_run [Charge 5 2 1 1 :: unit call] impc_example) = 0 \<and>
   IMPCBudgetBidder_reset (BidCapBidder_run [Charge 5 2 1 1 :: unit call] impc_example)
     = impc_example \<and>
   SPBBidder_init 10 10 2 (1 / 10) 5 5 2 = Inr spb_example \<and>
   step_spending (SPBBidder_run (\<lambda>spend val. None)
      [Charge 5 2 1 1 :: unit call] spb_example) = 0 \<and>
   SPBBidder_reset (SPBBidder_run (\<lambda>spend val. None)
      [Charge 5 2 1 1 :: unit call] spb_example) = spb_example"
proof -
  have h1: "IMPCBudgetBidder_init 10 10 2 (1 / 10) 5 = Inr impc_example"
    by (simp add: IMPCBudgetBidder_init_def impc_example_def)
  have h2: "step_spending (IMPCBudgetBidder_run [Charge 5 2 1 1 :: unit call] impc_example) = 0"
    by (simp add: IMPCBudgetBidder_run_def IMPCBudgetBidder_charge_def Let_def impc_example_def)
  have h3: "step_spending (BidCapBidder_run [Charge 5 2 1 1 :: unit call] impc_example) = 0"
    by (simp add: BidCapBidder_run_def BidCapBidder_charge_def IMPCBudgetBidder_charge_def
        Let_def impc_example_def)
  have h4: "SPBBidder_init 10 10 2 (1 / 10) 5 5 2 = Inr spb_example"
    by (simp add: SPBBidder_init_def spb_example_def)
  have h5: "step_spending (SPBBidder_run (\<lambda>spend val. None)
      [Charge 5 2 1 1 :: unit call] spb_example) = 0"
    by (simp add: SPBBidder_run_def SPBBidder_charge_def Let_def spb_example_def)
  note t = reset_restores_fresh [where self = impc_example and spb = spb_example
      and drawn = 10 and rpi = 10 and rps = 2 and step = "1 / 10" and mem = 5
      and fresh = impc_example and calls = "[Charge 5 2 1 1 :: unit call]"
      and spb_mem = 5 and explore_max = 2 and sfresh = spb_example
      and fitf = "\<lambda>spend val. None"]
  from t h1 h2 h3 h4 h5 show ?thesis by blast
qed

text \<open>
  Claim C2 as it is stated fails: \<open>reset\<close> does not assign \<open>step_spending\<close>. The
  example bidder charged 5 in round 1 (not a step boundary) and then reset keeps 5 in
  its step counter, and charged nothing in round 2 it moves its multiplier to 0.9,
  where the freshly constructed bidder moves it to 1.1.
\<close>

theorem reset_keeps_step_spending:
  "IMPCBudgetBidder_init 10 10 2 (1 / 10) 5 = Inr impc_example \<and>
   step_spending (IMPCBudgetBidder_reset
      (IMPCBudgetBidder_run [Charge 5 1 1 1 :: unit call] impc_example)) = 5 \<and>
   roi_bid (IMPCBudgetBidder_run [Charge 5 1 1 1, Reset, Charge 0 2 1 1 :: unit call]
      impc_example) = 9 / 10 \<and>
   roi_bid (IMPCBudgetBidder_run [Charge 0 2 1 1 :: unit call] impc_example) = 11 / 10"
proof -
  have 1: "IMPCBudgetBidder_init 10 10 2 (1 / 10) 5 = Inr impc_example"
    by (simp add: IMPCBudgetBidder_init_def impc_example_def)
  have 2: "step_spending (IMPCBudgetBidder_reset
      (IMPCBudgetBidder_run [Charge 5 1 1 1 :: unit call] impc_example)) = 5"
    by (simp add: IMPCBudgetBidder_run_def IMPCBudgetBidder_charge_def
        IMPCBudgetBidder_reset_def Let_def impc_example_def)
  have 3: "roi_bid (IMPCBudgetBidder_run [Charge 5 1 1 1, Reset, Charge 0 2 1 1 :: unit call]
      impc_example) = 9 / 10"
    by code_simp
  have 4: "roi_bid (IMPCBudgetBidder_run [Charge 0 2 1 1 :: unit call] impc_example) = 11 / 10"
    by code_simp
  from 1 2 3 4 show ?thesis by blast
qed

section \<open>Properties of the response curve\<close>

lemma radicand_at_opt_spend:
  fixes a b :: real
  assumes "a \<noteq> 0"
  shows "b * b + 2 * a * ((2 - 2 * b) / a) = (2 - b)\<^sup>2"
proof -
  have "2 * a * ((2 - 2 * b) / a) = 4 - 4 * b" using assms by simp
  then show ?thesis by (simp add: power2_eq_square algebra_simps)
qed

text \<open>
  Where the radicand is positive the marginal value is the reciprocal of its square
  root.
\<close>

lemma spend2value_curve_deriv:
  assumes "0 < a" and "0 < b * b + 2 * a * s"
  shows "(spend2value_curve a b has_real_derivative 1 / sqrt (b * b + 2 * a * s)) (at s)"
proof -
  let ?g = "\<lambda>x. (sqrt (b * b + 2 * a * x) - b) / a"
  have g: "(?g has_real_derivative 1 / sqrt (b * b + 2 * a * s)) (at s)"
    using assms by (auto intro!: derivative_eq_intros simp: field_simps)
  have op: "open {x. 0 < b * b + 2 * a * x}"
    by (intro open_Collect_less continuous_intros)
  have ev: "eventually (\<lambda>x. spend2value_curve a b x = ?g x) (nhds s)"
    unfolding eventually_nhds
    using op assms
    by (intro exI[of _ "{x. 0 < b * b + 2 * a * x}"])
      (auto simp: spend2value_curve_def spend2value_def)
  show ?thesis
    using g ev DERIV_cong_ev[of s s "spend2value_curve a b" ?g] by blast
qed

text \<open>
  Among the positive spends, \<open>(2 - 2b) / a\<close> is the only one whose value equals the
  spend.
\<close>

lemma spend2value_break_even_unique:
  assumes "0 < a" and "0 \<le> b" and "0 < s"
  shows "spend2value s a b = Fin s \<longleftrightarrow> s = (2 - 2 * b) / a"
proof -
  have R: "0 \<le> b * b + 2 * a * s" using assms by simp
  have y: "0 \<le> a * s + b" using assms by simp
  have "spend2value s a b = Fin s \<longleftrightarrow> (sqrt (b * b + 2 * a * s) - b) / a = s"
    using R assms(1) by (simp add: spend2value_def)
  also have "\<dots> \<longleftrightarrow> sqrt (b * b + 2 * a * s) = a * s + b"
    using assms(1) by (auto simp: field_simps)
  also have "\<dots> \<longleftrightarrow> b * b + 2 * a * s = (a * s + b)\<^sup>2"
  proof
    assume "sqrt (b * b + 2 * a * s) = a * s + b"
    then have "(sqrt (b * b + 2 * a * s))\<^sup>2 = (a * s + b)\<^sup>2" by simp
    then show "b * b + 2 * a * s = (a * s + b)\<^sup>2" using R by simp
  next
    assume "b * b + 2 * a * s = (a * s + b)\<^sup>2"
    then show "sqrt (b * b + 2 * a * s) = a * s + b" using y by simp
  qed
  also have "\<dots> \<longleftrightarrow> a * s * (2 - 2 * b - a * s) = 0"
    by (simp add: power2_eq_square algebra_simps)
  also have "\<dots> \<longleftrightarrow> 2 - 2 * b - a * s = 0" using assms by simp
  also have "\<dots> \<longleftrightarrow> s = (2 - 2 * b) / a" using assms(1) by (auto simp: field_simps)
  finally show ?thesis .
qed

text \<open>
  Claim C3, as amended. For all \<open>a > 0\<close> and \<open>0 \<le> b < 2\<close>, \<open>opt_spend(a, b)\<close> is
  \<open>(2 - 2b) / a\<close>, and it is the spend level at which \<open>spend2value\<close> returns the spend
  itself, that is at which the value per unit of spend is 1; the marginal value (the
  derivative of \<open>spend2value\<close> with respect to the spend) there is \<open>1 / (2 - b)\<close>.
\<close>

theorem opt_spend_break_even:
  assumes "0 < a" and "0 \<le> b" and "b < 2"
  shows "opt_spend a b = Fin ((2 - 2 * b) / a) \<and>
         spend2value ((2 - 2 * b) / a) a b = Fin ((2 - 2 * b) / a) \<and>
         (spend2value_curve a b has_real_derivative 1 / (2 - b)) (at ((2 - 2 * b) / a))"
proof -
  define s0 where "s0 = (2 - 2 * b) / a"
  have r: "b * b + 2 * a * s0 = (2 - b)\<^sup>2"
    unfolding s0_def using assms(1) by (intro radicand_at_opt_spend) simp
  have sq: "sqrt (b * b + 2 * a * s0) = 2 - b" unfolding r using assms by simp
  have pos: "0 < b * b + 2 * a * s0" unfolding r using assms by simp
  have 1: "opt_spend a b = Fin s0" using assms by (simp add: opt_spend_def s0_def)
  have "a * s0 = 2 - 2 * b" using assms(1) by (simp add: s0_def)
  then have "(2 - b - b) / a = s0" using assms(1) by (simp add: field_simps)
  then have 2: "spend2value s0 a b = Fin s0"
    unfolding spend2value_def using pos assms(1) by (simp add: sq)
  have 3: "(spend2value_curve a b has_real_derivative 1 / (2 - b)) (at s0)"
    using spend2value_curve_deriv[OF assms(1) pos] by (simp add: sq)
  from 1 2 3 show ?thesis unfolding s0_def by simp
qed

text \<open>At \<open>a = 1\<close>, \<open>b = 0\<close>: the spend is 2, its value is 2, the marginal value 1/2.\<close>

theorem opt_spend_break_even_witness:
  "(0::real) < 1 \<and> (0::real) \<le> 0 \<and> (0::real) < 2 \<and>
   opt_spend 1 0 = Fin 2 \<and> spend2value 2 1 0 = Fin 2 \<and>
   (spend2value_curve 1 0 has_real_derivative 1 / 2) (at 2)"
  using opt_spend_break_even [of 1 0] by simp

text \<open>
  Claim C3 as it is stated fails: at \<open>a = 1\<close>, \<open>b = 0\<close> the marginal value at
  \<open>opt_spend(a, b) = 2\<close> is 1/2, not 1.
\<close>

theorem opt_spend_marginal_value_not_1:
  "\<not> (spend2value_curve 1 0 has_real_derivative 1) (at (fin (opt_spend 1 0)))"
proof
  assume d: "(spend2value_curve 1 0 has_real_derivative 1) (at (fin (opt_spend 1 0)))"
  have p: "fin (opt_spend 1 0) = 2" by (simp add: opt_spend_def)
  have "(spend2value_curve 1 0 has_real_derivative 1 / sqrt (0 * 0 + 2 * 1 * 2)) (at 2)"
    by (rule spend2value_curve_deriv) simp_all
  moreover have "sqrt (0 * 0 + 2 * 1 * 2) = (2::real)"
    using real_sqrt_abs [of 2] by (simp add: power2_eq_square)
  ultimately have "(spend2value_curve 1 0 has_real_derivative 1 / 2) (at 2)" by simp
  with d p have "(1::real) = 1 / 2" using DERIV_unique by metis
  then show False by simp
qed

end
